theory Spec2Isabelle
  imports Main "HOL-Library.AList"
begin

section \<open>Values thrown by the storage layer and by Lucia\<close>

text \<open>
  The TypeScript sources signal failure by throwing. A thrown value is either a
  \<open>LuciaError\<close> (constructed with its message, e.g. \<open>AUTH_INVALID_SESSION_ID\<close>) or an
  error object of the database driver, of which the adapters read the optional fields
  \<open>errno\<close>, \<open>code\<close> and \<open>message\<close> (\<open>Partial<QueryError>\<close>,
  \<open>Partial<PossiblePrismaError>\<close>).
\<close>

datatype thrown =
    LuciaError string
  | QueryError "int option" "string option" "string option"

fun isLuciaError :: "thrown \<Rightarrow> bool" where
  "isLuciaError (LuciaError m) = True"
| "isLuciaError (QueryError n c m) = False"

fun errno :: "thrown \<Rightarrow> int option" where
  "errno (LuciaError m) = None"
| "errno (QueryError n c m) = n"

fun code :: "thrown \<Rightarrow> string option" where
  "code (LuciaError m) = None"
| "code (QueryError n c m) = c"

fun message :: "thrown \<Rightarrow> string option" where
  "message (LuciaError m) = Some m"
| "message (QueryError n c m) = m"

text \<open>\<open>String.prototype.includes\<close>: the needle occurs as a contiguous substring.\<close>

fun startsWith :: "string \<Rightarrow> string \<Rightarrow> bool" where
  "startsWith s [] = True"
| "startsWith [] (c # cs) = False"
| "startsWith (x # xs) (c # cs) = (x = c \<and> startsWith xs cs)"

fun includes_str :: "string \<Rightarrow> string \<Rightarrow> bool" where
  "includes_str [] needle = (needle = [])"
| "includes_str (x # xs) needle = (startsWith (x # xs) needle \<or> includes_str xs needle)"

text \<open>\<open>error.message?.includes(needle)\<close>: an absent message gives \<open>undefined\<close>, which is falsy.\<close>

definition messageIncludes :: "thrown \<Rightarrow> string \<Rightarrow> bool" where
  "messageIncludes e needle = (case message e of None \<Rightarrow> False | Some m \<Rightarrow> includes_str m needle)"

text \<open>
  An asynchronous operation on a state \<open>'s\<close>: it either throws (\<open>Inl\<close>) or returns
  (\<open>Inr\<close>), and leaves a new state in both cases.
\<close>

type_synonym ('a, 's) io = "'s \<Rightarrow> (thrown + 'a) \<times> 's"

section \<open>ExpirationPolicy\<close>

datatype session_state = active | idle | dead

text \<open>
  Modelled from the spec: the expiration-state function \<open>state(now, activePeriodExpiresAt,
  idlePeriodExpiresAt)\<close> of section 4.1 is not among the sources (only the session
  documentation naming the three states is). The definition follows the three bullet
  points of the spec in their order. It is named \<open>expirationState\<close> here, since
  \<open>state\<close> is also a field of \<open>Session\<close>.
\<close>

definition expirationState :: "int \<Rightarrow> int \<Rightarrow> int \<Rightarrow> session_state" where
  "expirationState now activePeriodExpiresAt idlePeriodExpiresAt =
     (if now < activePeriodExpiresAt then active
      else if activePeriodExpiresAt \<le> now \<and> now < idlePeriodExpiresAt then idle
      else dead)"

section \<open>The query builder (\<open>resolveQueryBlock\<close>, \<open>resolveQueryBlocks\<close>)\<close>

datatype column_value =
    VString string | VNumber int | VNull | VBigint int | VBool bool

text \<open>
  \<open>Record<string, ColumnValue>\<close>: an object, as the list of its entries in
  \<open>Object.keys\<close> order (for a given object the list is written in that order; the rule
  of JavaScript that integer-like keys are enumerated first is not part of the model).
  \<open>WhereBlock\<close> is \<open>{type: "WHERE", column, comparator, value}\<close>.
\<close>

type_synonym js_values = "(string \<times> column_value) list"

datatype where_block = WhereBlock string string column_value

datatype block =
    INNER_JOIN string string string
  | SELECT string "string list"
  | RETURNING "string list"
  | INSERT_INTO string js_values
  | WHERE string string column_value
  | AND "where_block list"
  | DELETE_FROM string
  | UPDATE string js_values

text \<open>
  A query chunk is a template literal. It is kept as the sequence of its pieces: literal
  text and the interpolated positional placeholders \<open>$n\<close>; \<open>render\<close> gives the string
  the source builds. The last member of the union \<open>Block\<close>, \<open>WhereBlock\<close>, is the
  \<open>WHERE\<close> block again; every value of the type has one of the eight tags, so the
  final \<open>throw new TypeError\<close> of \<open>resolveQueryBlock\<close> is not reached.
\<close>

datatype piece = Text string | Placeholder nat

record resolved_block =
  queryChunk :: "piece list"
  params :: "column_value list"

definition escapeName :: "string \<Rightarrow> string" where
  "escapeName val = (if val = ''*'' then val else ''\"'' @ val @ ''\"'')"

text \<open>\<open>Array.prototype.join\<close>, on strings and on piece sequences.\<close>

fun join :: "'a list \<Rightarrow> 'a list list \<Rightarrow> 'a list" where
  "join sep [] = []"
| "join sep [x] = x"
| "join sep (x # y # ys) = x @ sep @ join sep (y # ys)"

text \<open>\<open>Object.keys(values)\<close> and \<open>values[k]\<close>.\<close>

definition keys :: "js_values \<Rightarrow> string list" where
  "keys vs = map fst vs"

definition lookup :: "js_values \<Rightarrow> string \<Rightarrow> column_value" where
  "lookup vs k = (case map_of vs k of Some v \<Rightarrow> v | None \<Rightarrow> VNull)"

text \<open>The \<open>map((x, i) => ...)\<close> of the source: the callback receives the index.\<close>

fun mapi :: "nat \<Rightarrow> ('a \<Rightarrow> nat \<Rightarrow> 'b) \<Rightarrow> 'a list \<Rightarrow> 'b list" where
  "mapi i f [] = []"
| "mapi i f (x # xs) = f x i # mapi (Suc i) f xs"

fun resolveWhereBlock :: "nat \<Rightarrow> where_block \<Rightarrow> nat \<Rightarrow> resolved_block" where
  "resolveWhereBlock paramCount (WhereBlock column comparator val) i =
     \<lparr>queryChunk = [Text column, Text '' '', Text comparator, Text '' '',
                     Placeholder (paramCount + 1 + i)],
      params = [val]\<rparr>"

fun resolveQueryBlock :: "block \<Rightarrow> nat \<Rightarrow> resolved_block" where
  "resolveQueryBlock (DELETE_FROM table) paramCount =
     \<lparr>queryChunk = [Text ''DELETE FROM '', Text (escapeName table)], params = []\<rparr>"
| "resolveQueryBlock (INNER_JOIN targetTable targetColumn column) paramCount =
     \<lparr>queryChunk = [Text ''INNER JOIN '', Text (escapeName targetTable), Text '' ON '',
                     Text targetColumn, Text '' = '', Text column],
      params = []\<rparr>"
| "resolveQueryBlock (INSERT_INTO table vs) paramCount =
     \<lparr>queryChunk =
        [Text ''INSERT INTO '', Text (escapeName table), Text '' ('',
         Text (join '','' (map escapeName (keys vs))), Text '') VALUES ('']
        @ join [Text '',''] (mapi 0 (\<lambda>_ i. [Placeholder (paramCount + i + 1)]) (keys vs))
        @ [Text '')''],
      params = map (lookup vs) (keys vs)\<rparr>"
| "resolveQueryBlock (RETURNING columns) paramCount =
     \<lparr>queryChunk = [Text ''RETURNING '', Text (join '','' columns)], params = []\<rparr>"
| "resolveQueryBlock (SELECT table columns) paramCount =
     \<lparr>queryChunk = [Text ''SELECT '', Text (join '','' columns), Text '' FROM '',
                     Text (escapeName table)],
      params = []\<rparr>"
| "resolveQueryBlock (WHERE column comparator val) paramCount =
     \<lparr>queryChunk = [Text ''WHERE '', Text column, Text '' '', Text comparator, Text '' '',
                     Placeholder (paramCount + 1)],
      params = [val]\<rparr>"
| "resolveQueryBlock (UPDATE table vs) paramCount =
     \<lparr>queryChunk =
        [Text ''UPDATE '', Text (escapeName table), Text '' SET '']
        @ join [Text '','']
            (mapi 0 (\<lambda>k i. [Text (escapeName k), Text '' = '', Placeholder (paramCount + i + 1)])
               (keys vs)),
      params = map (lookup vs) (keys vs)\<rparr>"
| "resolveQueryBlock (AND whereBlocks) paramCount =
     (let resolvedConditionQueryBlocks = mapi 0 (resolveWhereBlock paramCount) whereBlocks;
          conditionQueryChunk = join [Text '' AND ''] (map queryChunk resolvedConditionQueryBlocks)
      in \<lparr>queryChunk = Text ''WHERE '' # conditionQueryChunk,
          params = foldl (\<lambda>acc curr. acc @ params curr) [] resolvedConditionQueryBlocks\<rparr>)"

text \<open>
  The result \<open>{statement, params}\<close> of \<open>resolveQueryBlocks\<close>; its \<open>params\<close> is
  written \<open>query_params\<close>, \<open>params\<close> being the field of a resolved block.
\<close>

record query =
  statement :: "piece list"
  query_params :: "column_value list"

text \<open>
  The \<open>for\<close> loop of \<open>resolveQueryBlocks\<close>, with its two accumulators
  \<open>queryChunks\<close> and \<open>params\<close>.
\<close>

fun resolveLoop :: "block list \<Rightarrow> piece list list \<Rightarrow> column_value list
    \<Rightarrow> piece list list \<times> column_value list" where
  "resolveLoop [] queryChunks ps = (queryChunks, ps)"
| "resolveLoop (queryBlock # rest) queryChunks ps =
     (let resolvedBlock = resolveQueryBlock queryBlock (length ps)
      in resolveLoop rest (queryChunks @ [queryChunk resolvedBlock]) (ps @ params resolvedBlock))"

definition resolveQueryBlocks :: "block list \<Rightarrow> query" where
  "resolveQueryBlocks queryBlocks =
     (case resolveLoop queryBlocks [] [] of
        (queryChunks, ps) \<Rightarrow> \<lparr>statement = join [Text '' ''] queryChunks, query_params = ps\<rparr>)"

text \<open>The decimal numeral JavaScript interpolates for a non-negative integer.\<close>

definition digit :: "nat \<Rightarrow> char" where
  "digit n = ''0123456789'' ! n"

fun decimal :: "nat \<Rightarrow> string" where
  "decimal n = (if n < 10 then [digit n] else decimal (n div 10) @ [digit (n mod 10)])"

declare decimal.simps [simp del]

fun render_piece :: "piece \<Rightarrow> string" where
  "render_piece (Text s) = s"
| "render_piece (Placeholder n) = ''$'' @ decimal n"

definition render :: "piece list \<Rightarrow> string" where
  "render ps = concat (map render_piece ps)"

text \<open>The placeholders the builder interpolates into a statement, left to right.\<close>

fun placeholders :: "piece list \<Rightarrow> nat list" where
  "placeholders [] = []"
| "placeholders (Text s # ps) = placeholders ps"
| "placeholders (Placeholder n # ps) = n # placeholders ps"

text \<open>
  The placeholders a reader of the statement string finds, left to right: every \<open>$\<close>
  that is followed by at least one decimal digit, with the number its digits spell.
\<close>

definition isDigit :: "char \<Rightarrow> bool" where
  "isDigit c = (c \<in> set ''0123456789'')"

definition digitValue :: "char \<Rightarrow> nat" where
  "digitValue c = length (takeWhile (\<lambda>d. d \<noteq> c) ''0123456789'')"

definition numberOf :: "string \<Rightarrow> nat" where
  "numberOf ds = foldl (\<lambda>n c. 10 * n + digitValue c) 0 ds"

function scanPlaceholders :: "string \<Rightarrow> nat list" where
  "scanPlaceholders [] = []"
| "scanPlaceholders (c # cs) =
     (if c = CHR ''$'' \<and> takeWhile isDigit cs \<noteq> []
      then numberOf (takeWhile isDigit cs) # scanPlaceholders (dropWhile isDigit cs)
      else scanPlaceholders cs)"
  by pat_completeness auto
termination
  by (relation "measure length") (auto simp: length_dropWhile_le less_Suc_eq_le)

text \<open>
  The shape of the statements the builder produces, as far as reading placeholders off
  the string goes: no text piece contains a \<open>$\<close>, and what follows a placeholder is
  nothing, another placeholder, or text that begins with a character other than a digit.
\<close>

fun startsClean :: "piece list \<Rightarrow> bool" where
  "startsClean [] = True"
| "startsClean (Placeholder n # ps) = True"
| "startsClean (Text s # ps) = (case s of [] \<Rightarrow> False | c # cs \<Rightarrow> \<not> isDigit c)"

fun unambiguous :: "piece list \<Rightarrow> bool" where
  "unambiguous [] = True"
| "unambiguous (Text s # ps) = (CHR ''$'' \<notin> set s \<and> unambiguous ps)"
| "unambiguous (Placeholder n # ps) = (startsClean ps \<and> unambiguous ps)"

text \<open>
  The text a block brings into the statement as it is: table names, column names and
  comparators. \<open>dollarFree\<close>: none of it contains a \<open>$\<close>.
\<close>

fun whereTexts :: "where_block \<Rightarrow> string list" where
  "whereTexts (WhereBlock column comparator val) = [column, comparator]"

fun texts :: "block \<Rightarrow> string list" where
  "texts (INNER_JOIN targetTable targetColumn column) = [targetTable, targetColumn, column]"
| "texts (SELECT table columns) = table # columns"
| "texts (RETURNING columns) = columns"
| "texts (INSERT_INTO table vs) = table # keys vs"
| "texts (WHERE column comparator val) = [column, comparator]"
| "texts (AND whereBlocks) = concat (map whereTexts whereBlocks)"
| "texts (DELETE_FROM table) = [table]"
| "texts (UPDATE table vs) = table # keys vs"

definition dollarFree :: "block \<Rightarrow> bool" where
  "dollarFree b = list_all (\<lambda>s. CHR ''$'' \<notin> set s) (texts b)"

text \<open>
  What the blocks ask for, read off their inputs alone. \<open>blockValues\<close>: the values a
  block binds, in the order its text names their columns (for \<open>INSERT_INTO\<close> and
  \<open>UPDATE\<close> the value \<open>values[k]\<close> of every key \<open>k\<close> in key order, for \<open>WHERE\<close> its
  value, for \<open>AND\<close> the values of its conditions in order). \<open>written\<close>: the text of a
  block with every value standing in the place of its placeholder, that is, next to the
  column it is bound to; characters are \<open>Inl\<close>, values \<open>Inr\<close>.
\<close>

fun whereValue :: "where_block \<Rightarrow> column_value" where
  "whereValue (WhereBlock column comparator val) = val"

fun blockValues :: "block \<Rightarrow> column_value list" where
  "blockValues (INSERT_INTO table vs) = map (\<lambda>k. lookup vs k) (keys vs)"
| "blockValues (UPDATE table vs) = map (\<lambda>k. lookup vs k) (keys vs)"
| "blockValues (WHERE column comparator val) = [val]"
| "blockValues (AND whereBlocks) = map whereValue whereBlocks"
| "blockValues (INNER_JOIN targetTable targetColumn column) = []"
| "blockValues (SELECT table columns) = []"
| "blockValues (RETURNING columns) = []"
| "blockValues (DELETE_FROM table) = []"

type_synonym bound_text = "(char + column_value) list"

definition literal :: "string \<Rightarrow> bound_text" where
  "literal s = map Inl s"

fun writtenWhere :: "where_block \<Rightarrow> bound_text" where
  "writtenWhere (WhereBlock column comparator val) =
     literal (column @ '' '' @ comparator @ '' '') @ [Inr val]"

fun written :: "block \<Rightarrow> bound_text" where
  "written (INSERT_INTO table vs) =
     literal (''INSERT INTO '' @ escapeName table @ '' (''
              @ join '','' (map escapeName (keys vs)) @ '') VALUES ('')
     @ join (literal '','') (map (\<lambda>k. [Inr (lookup vs k)]) (keys vs))
     @ literal '')''"
| "written (UPDATE table vs) =
     literal (''UPDATE '' @ escapeName table @ '' SET '')
     @ join (literal '','')
         (map (\<lambda>k. literal (escapeName k @ '' = '') @ [Inr (lookup vs k)]) (keys vs))"
| "written (WHERE column comparator val) =
     literal (''WHERE '' @ column @ '' '' @ comparator @ '' '') @ [Inr val]"
| "written (AND whereBlocks) =
     literal ''WHERE '' @ join (literal '' AND '') (map writtenWhere whereBlocks)"
| "written (INNER_JOIN targetTable targetColumn column) =
     literal (''INNER JOIN '' @ escapeName targetTable @ '' ON '' @ targetColumn @ '' = ''
              @ column)"
| "written (SELECT table columns) =
     literal (''SELECT '' @ join '','' columns @ '' FROM '' @ escapeName table)"
| "written (RETURNING columns) = literal (''RETURNING '' @ join '','' columns)"
| "written (DELETE_FROM table) = literal (''DELETE FROM '' @ escapeName table)"

text \<open>
  Binding the parameters: every placeholder \<open>$k\<close> of a statement is replaced by
  \<open>params[k-1]\<close>; a placeholder that refers to no parameter stays as its text.
\<close>

fun bindPiece :: "column_value list \<Rightarrow> piece \<Rightarrow> bound_text" where
  "bindPiece ps (Text s) = literal s"
| "bindPiece ps (Placeholder k) =
     (if 1 \<le> k \<and> k \<le> length ps then [Inr (ps ! (k - 1))] else literal (''$'' @ decimal k))"

definition bindParams :: "column_value list \<Rightarrow> piece list \<Rightarrow> bound_text" where
  "bindParams ps pieces = concat (map (bindPiece ps) pieces)"

section \<open>The request validator (\<open>AuthRequest\<close>)\<close>

text \<open>
  An optional property of a JavaScript object: absent (\<open>undefined\<close>), \<open>null\<close>, or a
  value. \<open>x ?? d\<close> is \<open>nullish x d\<close>.
\<close>

datatype 'a js = Undefined | Null | Val 'a

fun nullish :: "'a js \<Rightarrow> 'a \<Rightarrow> 'a" where
  "nullish (Val v) d = v"
| "nullish Undefined d = d"
| "nullish Null d = d"

text \<open>
  \<open>LuciaRequest\<close>. \<open>headers\<close> is \<open>Headers.get\<close>: \<open>None\<close> is the \<open>null\<close> it
  returns for a header the request does not carry. Header names are looked up as the
  source spells them (\<open>Origin\<close>, \<open>Cookie\<close>, \<open>Authorization\<close>, \<open>Host\<close>). The field
  \<open>method\<close> of the source is written \<open>httpMethod\<close>.
\<close>

record LuciaRequest =
  httpMethod :: string
  url :: "string js"
  headers :: "string \<Rightarrow> string option"

text \<open>
  \<open>RequestContext\<close>. \<open>sessionCookie\<close> is \<open>string | null | undefined\<close> and only read
  through \<open>??\<close>, so \<open>None\<close> stands for both \<open>null\<close> and \<open>undefined\<close>. The calls of
  \<open>setCookie\<close> are recorded in the world below.
\<close>

record RequestContext =
  sessionCookie :: "string option"
  request :: LuciaRequest

datatype subdomains = Wildcard | SubDomains "string list"

record CSRFProtectionConfiguration =
  host :: "string js"
  hostHeader :: "string js"
  allowedSubDomains :: "subdomains js"

text \<open>\<open>csrfProtection: boolean | CSRFProtectionConfiguration\<close>.\<close>

datatype csrfProtection = CsrfBool bool | CsrfObject CSRFProtectionConfiguration

text \<open>The result of \<open>safeParseUrl\<close>: a \<open>URL\<close>, of which only \<open>host\<close> is read.\<close>

datatype parsed_url = URL (url_host: string)

text \<open>
  A session as \<open>Auth\<close> returns it: the stored fields, and the derived fields
  \<open>state\<close> and \<open>fresh\<close>.
\<close>

record StoredSession =
  sessionId :: string
  userId :: string
  activePeriodExpiresAt :: int
  idlePeriodExpiresAt :: int
  attributes :: js_values

record Session = StoredSession +
  state :: session_state
  fresh :: bool

text \<open>
  \<open>Auth\<close> is not among the sources: the four methods \<open>AuthRequest\<close> calls are
  parameters. \<open>validateSession\<close> works on the storage \<open>'s\<close>; the cookie type \<open>'c\<close>
  is whatever \<open>createSessionCookie\<close> builds.
\<close>

record ('s, 'c) Auth =
  validateSession :: "string \<Rightarrow> (Session, 's) io"
  readSessionCookie :: "string option \<Rightarrow> string option"
  readBearerToken :: "string option \<Rightarrow> string option"
  createSessionCookie :: "Session option \<Rightarrow> 'c"

text \<open>
  What lies outside the \<open>AuthRequest\<close> object: the storage behind \<open>Auth\<close>, the
  arguments of the calls of \<open>auth.validateSession\<close> made so far, and the cookies handed
  to \<open>requestContext.setCookie\<close> so far.
\<close>

record ('s, 'c) world =
  storage :: 's
  validateSessionCalls :: "string list"
  cookies :: "'c list"

definition callValidateSession ::
    "('s, 'c) Auth \<Rightarrow> string \<Rightarrow> ('s, 'c) world \<Rightarrow> (thrown + Session) \<times> ('s, 'c) world" where
  "callValidateSession auth sid w =
     (case validateSession auth sid (storage w) of
        (res, st) \<Rightarrow>
          (res, w\<lparr>storage := st, validateSessionCalls := validateSessionCalls w @ [sid]\<rparr>))"

text \<open>
  A promise, once the code that settles it has run to its end: resolved with a value,
  rejected with a thrown value, or never settled. A caller awaiting \<open>Resolved v\<close>
  receives \<open>v\<close>, a caller awaiting \<open>Rejected e\<close> has \<open>e\<close> thrown at it, a caller
  awaiting \<open>Unsettled e\<close> receives nothing.

  \<open>validate\<close> and \<open>validateBearerToken\<close> build their promise by
  \<open>new Promise(async (resolve) => ...)\<close>. The executor takes \<open>resolve\<close> only. When it
  leaves by \<open>throw e\<close>, the exception rejects the promise of the \<open>async\<close> executor
  itself, which the \<open>Promise\<close> constructor drops: the promise built stays unsettled,
  and \<open>Unsettled e\<close> keeps the value \<open>e\<close> of that unhandled rejection.
\<close>

datatype 'a promise = Resolved 'a | Rejected thrown | Unsettled thrown

record AuthRequest =
  storedSessionId :: "string option"
  bearerToken :: "string option"
  validatePromise :: "Session option promise option"
  validateBearerTokenPromise :: "Session option promise option"

text \<open>\<open>!s\<close> for \<open>s: string | null\<close>: \<open>null\<close> and the empty string are falsy.\<close>

fun truthy :: "string option \<Rightarrow> string option" where
  "truthy None = None"
| "truthy (Some s) = (if s = [] then None else Some s)"

definition isValidRequestOrigin ::
    "(string \<Rightarrow> parsed_url option) \<Rightarrow> (string \<Rightarrow> string \<Rightarrow> subdomains \<Rightarrow> bool)
      \<Rightarrow> LuciaRequest \<Rightarrow> CSRFProtectionConfiguration \<Rightarrow> bool" where
  "isValidRequestOrigin safeParseUrl isAllowedOrigin req config =
     (case truthy (headers req ''Origin'') of
        None \<Rightarrow> False
      | Some requestOrigin \<Rightarrow>
          (let resolvedHost =
                 (if host config \<noteq> Null then
                    (case host config of Val h \<Rightarrow> Some h | Undefined \<Rightarrow> None | Null \<Rightarrow> None)
                  else if url req \<noteq> Null \<and> url req \<noteq> Undefined then
                    (case url req of
                       Val u \<Rightarrow> map_option url_host (safeParseUrl u)
                     | Undefined \<Rightarrow> None
                     | Null \<Rightarrow> None)
                  else headers req (nullish (hostHeader config) ''Host''))
           in case resolvedHost of
                None \<Rightarrow> False
              | Some h \<Rightarrow>
                  isAllowedOrigin requestOrigin h
                    (nullish (allowedSubDomains config) (SubDomains []))))"

text \<open>The constructor. \<open>{}\<close> is the configuration with every property absent.\<close>

definition emptyConfiguration :: CSRFProtectionConfiguration where
  "emptyConfiguration = \<lparr>host = Undefined, hostHeader = Undefined, allowedSubDomains = Undefined\<rparr>"

definition newAuthRequest ::
    "(string \<Rightarrow> parsed_url option) \<Rightarrow> (string \<Rightarrow> string \<Rightarrow> subdomains \<Rightarrow> bool)
      \<Rightarrow> ('s, 'c) Auth \<Rightarrow> csrfProtection \<Rightarrow> RequestContext \<Rightarrow> AuthRequest" where
  "newAuthRequest safeParseUrl isAllowedOrigin auth csrf requestContext =
     (let csrfProtectionConfig =
            (case csrf of CsrfObject c \<Rightarrow> c | CsrfBool b \<Rightarrow> emptyConfiguration);
          csrfProtectionEnabled = (csrf \<noteq> CsrfBool False)
      in \<lparr>storedSessionId =
            (if \<not> csrfProtectionEnabled
                \<or> isValidRequestOrigin safeParseUrl isAllowedOrigin (request requestContext)
                     csrfProtectionConfig
             then (case sessionCookie requestContext of
                     Some c \<Rightarrow> Some c
                   | None \<Rightarrow>
                       readSessionCookie auth (headers (request requestContext) ''Cookie''))
             else None),
          bearerToken =
            readBearerToken auth (headers (request requestContext) ''Authorization''),
          validatePromise = None,
          validateBearerTokenPromise = None\<rparr>)"

text \<open>
  \<open>setSessionCookie\<close>. The call of \<open>requestContext.setCookie\<close> is recorded; an exception
  it raises is caught and ignored by the source.
\<close>

definition setSessionCookie ::
    "('s, 'c) Auth \<Rightarrow> Session option \<Rightarrow> AuthRequest \<times> ('s, 'c) world
      \<Rightarrow> AuthRequest \<times> ('s, 'c) world" where
  "setSessionCookie auth session rw =
     (case rw of (r, w) \<Rightarrow>
        (let sid = map_option sessionId session
         in if storedSessionId r = sid then (r, w)
            else (r\<lparr>storedSessionId := sid\<rparr>,
                  w\<lparr>cookies := cookies w @ [createSessionCookie auth session]\<rparr>)))"

definition setSession ::
    "('s, 'c) Auth \<Rightarrow> Session option \<Rightarrow> AuthRequest \<times> ('s, 'c) world
      \<Rightarrow> AuthRequest \<times> ('s, 'c) world" where
  "setSession auth session rw =
     (case rw of (r, w) \<Rightarrow>
        (let sid = map_option sessionId session
         in if storedSessionId r = sid then (r, w)
            else setSessionCookie auth session (r\<lparr>validatePromise := None\<rparr>, w)))"

text \<open>
  \<open>validate\<close> and \<open>validateBearerToken\<close> return what the caller's \<open>await\<close> observes,
  the object and the world after the call.
\<close>

definition validate ::
    "('s, 'c) Auth \<Rightarrow> AuthRequest \<Rightarrow> ('s, 'c) world
      \<Rightarrow> Session option promise \<times> AuthRequest \<times> ('s, 'c) world" where
  "validate auth r w =
     (case validatePromise r of
        Some p \<Rightarrow> (p, r, w)
      | None \<Rightarrow>
          (case truthy (storedSessionId r) of
             None \<Rightarrow> (Resolved None, r\<lparr>validatePromise := Some (Resolved None)\<rparr>, w)
           | Some sid \<Rightarrow>
               (case callValidateSession auth sid w of
                  (Inr session, w1) \<Rightarrow>
                    (case (if fresh session then setSessionCookie auth (Some session) (r, w1)
                           else (r, w1)) of
                       (r2, w2) \<Rightarrow>
                         (Resolved (Some session),
                          r2\<lparr>validatePromise := Some (Resolved (Some session))\<rparr>, w2))
                | (Inl e, w1) \<Rightarrow>
                    (if isLuciaError e then
                       (case setSessionCookie auth None (r, w1) of
                          (r2, w2) \<Rightarrow>
                            (Resolved None, r2\<lparr>validatePromise := Some (Resolved None)\<rparr>, w2))
                     else (Unsettled e, r\<lparr>validatePromise := Some (Unsettled e)\<rparr>, w1)))))"

definition validateBearerToken ::
    "('s, 'c) Auth \<Rightarrow> AuthRequest \<Rightarrow> ('s, 'c) world
      \<Rightarrow> Session option promise \<times> AuthRequest \<times> ('s, 'c) world" where
  "validateBearerToken auth r w =
     (case validateBearerTokenPromise r of
        Some q \<Rightarrow>
          ((case validatePromise r of Some p \<Rightarrow> p | None \<Rightarrow> Resolved None), r, w)
      | None \<Rightarrow>
          (case truthy (bearerToken r) of
             None \<Rightarrow> (Resolved None, r\<lparr>validatePromise := Some (Resolved None)\<rparr>, w)
           | Some token \<Rightarrow>
               (case callValidateSession auth token w of
                  (Inr session, w1) \<Rightarrow>
                    (Resolved (Some session),
                     r\<lparr>validatePromise := Some (Resolved (Some session))\<rparr>, w1)
                | (Inl e, w1) \<Rightarrow>
                    (if isLuciaError e then
                       (Resolved None, r\<lparr>validatePromise := Some (Resolved None)\<rparr>, w1)
                     else (Unsettled e, r\<lparr>validatePromise := Some (Unsettled e)\<rparr>, w1)))))"

section \<open>SessionManager\<close>

text \<open>
  The storage behind the session manager: the session rows, the clock reading injected
  into the call, and the number of identifiers the token generator has handed out so
  far. The generator of the source is random; here its \<open>n\<close>-th identifier is
  \<open>s\<close> followed by the numeral of \<open>n\<close>.
\<close>

record SessionStore =
  sessions :: "StoredSession list"
  now :: int
  generated :: nat

definition generate :: "nat \<Rightarrow> string" where
  "generate n = ''s'' @ decimal n"

definition toSession :: "StoredSession \<Rightarrow> session_state \<Rightarrow> bool \<Rightarrow> Session" where
  "toSession s st f =
     \<lparr>sessionId = sessionId s, userId = userId s,
      activePeriodExpiresAt = activePeriodExpiresAt s,
      idlePeriodExpiresAt = idlePeriodExpiresAt s,
      attributes = attributes s, state = st, fresh = f\<rparr>"

text \<open>
  Modelled from the spec: \<open>Auth.validateSession\<close> is not among the sources. Section 4.3,
  \<open>validateAndRenew(sessionId)\<close>: absent gives \<open>InvalidSessionId\<close>; active is returned
  as it is with \<open>fresh = false\<close>; idle deletes the old row and inserts a fresh one for
  the same user with the same attributes, returned with \<open>fresh = true\<close>; dead gives
  \<open>InvalidSessionId\<close> and writes nothing. The new expiries are those of \<open>create\<close>:
  \<open>now + activePeriod\<close> and that plus \<open>idlePeriod\<close>.
\<close>

definition validateAndRenew :: "int \<Rightarrow> int \<Rightarrow> string \<Rightarrow> (Session, SessionStore) io" where
  "validateAndRenew activePeriod idlePeriod sid st =
     (case find (\<lambda>s. sessionId s = sid) (sessions st) of
        None \<Rightarrow> (Inl (LuciaError ''AUTH_INVALID_SESSION_ID''), st)
      | Some s \<Rightarrow>
          (case expirationState (now st) (activePeriodExpiresAt s) (idlePeriodExpiresAt s) of
             active \<Rightarrow> (Inr (toSession s active False), st)
           | idle \<Rightarrow>
               (let renewed =
                      \<lparr>sessionId = generate (generated st), userId = userId s,
                       activePeriodExpiresAt = now st + activePeriod,
                       idlePeriodExpiresAt = now st + activePeriod + idlePeriod,
                       attributes = attributes s\<rparr>
                in (Inr (toSession renewed active True),
                    st\<lparr>sessions := filter (\<lambda>x. sessionId x \<noteq> sid) (sessions st) @ [renewed],
                       generated := Suc (generated st)\<rparr>))
           | dead \<Rightarrow> (Inl (LuciaError ''AUTH_INVALID_SESSION_ID''), st)))"

text \<open>
  Modelled from the spec: section 4.3, \<open>get(sessionId)\<close>: the same lookup and state
  computation, but never renews; an idle session is returned with \<open>state = idle\<close> and
  \<open>fresh = false\<close>.
\<close>

definition getSession :: "string \<Rightarrow> (Session, SessionStore) io" where
  "getSession sid st =
     (case find (\<lambda>s. sessionId s = sid) (sessions st) of
        None \<Rightarrow> (Inl (LuciaError ''AUTH_INVALID_SESSION_ID''), st)
      | Some s \<Rightarrow>
          (case expirationState (now st) (activePeriodExpiresAt s) (idlePeriodExpiresAt s) of
             active \<Rightarrow> (Inr (toSession s active False), st)
           | idle \<Rightarrow> (Inr (toSession s idle False), st)
           | dead \<Rightarrow> (Inl (LuciaError ''AUTH_INVALID_SESSION_ID''), st)))"

text \<open>
  An \<open>Auth\<close> over this session manager. The cookie it builds is the session id it
  carries (\<open>None\<close> for the clearing cookie); the two readers take the header value as
  the credential.
\<close>

definition luciaAuth :: "int \<Rightarrow> int \<Rightarrow> (SessionStore, string option) Auth" where
  "luciaAuth activePeriod idlePeriod =
     \<lparr>validateSession = validateAndRenew activePeriod idlePeriod,
      readSessionCookie = (\<lambda>h. h),
      readBearerToken = (\<lambda>h. h),
      createSessionCookie = map_option sessionId\<rparr>"

text \<open>An \<open>Auth\<close> whose \<open>validateSession\<close> fails with a given value and writes nothing.\<close>

definition failingAuth :: "thrown \<Rightarrow> (unit, string option) Auth" where
  "failingAuth e =
     \<lparr>validateSession = (\<lambda>sid st. (Inl e, st)),
      readSessionCookie = (\<lambda>h. h),
      readBearerToken = (\<lambda>h. h),
      createSessionCookie = map_option sessionId\<rparr>"

text \<open>
  An \<open>Auth\<close> whose storage is the number of queries made of it: every identifier is
  that of an active session.
\<close>

definition countingAuth :: "(nat, string option) Auth" where
  "countingAuth =
     \<lparr>validateSession =
        (\<lambda>sid n.
           (Inr \<lparr>sessionId = sid, userId = ''u1'', activePeriodExpiresAt = 1,
                  idlePeriodExpiresAt = 2, attributes = [], state = active, fresh = False\<rparr>,
            Suc n)),
      readSessionCookie = (\<lambda>h. h),
      readBearerToken = (\<lambda>h. h),
      createSessionCookie = map_option sessionId\<rparr>"

section \<open>The storage adapters\<close>

text \<open>Sequencing of two awaited calls: the second runs only if the first returned.\<close>

definition andThen :: "('a, 's) io \<Rightarrow> ('b, 's) io \<Rightarrow> ('b, 's) io" where
  "andThen f g s = (case f s of (Inl e, s1) \<Rightarrow> (Inl e, s1) | (Inr x, s1) \<Rightarrow> g s1)"

text \<open>
  \<open>{...target, ...source}\<close>: object spread. A key of \<open>source\<close> that \<open>target\<close> has
  keeps its place and takes the new value; the other keys follow in the order of
  \<open>source\<close>. Keys are column names; the reordering JavaScript applies to integer-like
  keys is not modelled.
\<close>

definition spread :: "js_values \<Rightarrow> js_values \<Rightarrow> js_values" where
  "spread target source = fold (\<lambda>kv acc. AList.update (fst kv) (snd kv) acc) source target"

subsection \<open>The mysql2 adapter\<close>

text \<open>
  What the adapter is given: the pool \<open>db\<close> with \<open>getConnection\<close>, the three
  transaction calls of a connection obtained from it, and \<open>operator.run\<close> of the
  operator built by \<open>createOperator(mysql2Runner(db))\<close>, applied to the query blocks
  (\<open>runner.js\<close>, \<open>query.js\<close> and \<open>core.js\<close> of this adapter are not among the
  sources). \<open>mysql2_setSession\<close> takes \<open>coreAdapter.setSession\<close> as its first
  argument.
\<close>

record ('db, 'conn) mysql2 =
  getConnection :: "('conn, 'db) io"
  beginTransaction :: "'conn \<Rightarrow> (unit, 'db) io"
  commit :: "'conn \<Rightarrow> (unit, 'db) io"
  rollback :: "'conn \<Rightarrow> (unit, 'db) io"
  run :: "block list \<Rightarrow> (unit, 'db) io"

definition transaction :: "('db, 'conn) mysql2 \<Rightarrow> (unit, 'db) io \<Rightarrow> (unit, 'db) io" where
  "transaction db execute s =
     (case getConnection db s of
        (Inl e, s1) \<Rightarrow> (Inl e, s1)
      | (Inr connection, s1) \<Rightarrow>
          (case andThen (beginTransaction db connection)
                  (andThen execute (commit db connection)) s1 of
             (Inr u, s2) \<Rightarrow> (Inr (), s2)
           | (Inl e, s2) \<Rightarrow>
               (case rollback db connection s2 of
                  (Inl e2, s3) \<Rightarrow> (Inl e2, s3)
                | (Inr u, s3) \<Rightarrow> (Inl e, s3))))"

definition mysql2_setUser ::
    "('db, 'conn) mysql2 \<Rightarrow> string \<Rightarrow> js_values \<Rightarrow> js_values option \<Rightarrow> (unit, 'db) io" where
  "mysql2_setUser db uid attrs key s =
     (let user = spread [(''id'', VString uid)] attrs
      in case (case key of
                 Some k \<Rightarrow>
                   transaction db
                     (andThen (run db [INSERT_INTO ''auth_user'' user])
                        (run db [INSERT_INTO ''auth_key'' k]))
               | None \<Rightarrow> run db [INSERT_INTO ''auth_user'' user]) s of
           (Inr u, s1) \<Rightarrow> (Inr (), s1)
         | (Inl e, s1) \<Rightarrow>
             (if code e = Some ''ER_DUP_ENTRY'' \<and> messageIncludes e ''PRIMARY''
              then (Inl (LuciaError ''AUTH_DUPLICATE_KEY_ID''), s1)
              else (Inl e, s1)))"

definition mysql2_setSession ::
    "(js_values \<Rightarrow> (unit, 'db) io) \<Rightarrow> js_values \<Rightarrow> (unit, 'db) io" where
  "mysql2_setSession coreSetSession session s =
     (case coreSetSession session s of
        (Inr u, s1) \<Rightarrow> (Inr u, s1)
      | (Inl e, s1) \<Rightarrow>
          (if errno e = Some 1452 \<and> messageIncludes e ''(`user_id`)''
           then (Inl (LuciaError ''AUTH_INVALID_USER_ID''), s1)
           else if code e = Some ''ER_DUP_ENTRY'' \<and> messageIncludes e ''PRIMARY''
           then (Inl (LuciaError ''AUTH_DUPLICATE_SESSION_ID''), s1)
           else (Inl e, s1)))"

text \<open>
  A MySQL server behind the pool, for running \<open>mysql2_setUser\<close>. A statement sent
  through the pool runs on a pooled connection in autocommit mode: its write is committed
  when it returns. \<open>beginTransaction\<close>, \<open>commit\<close> and \<open>rollback\<close> act on the
  statements sent on the connection they are called on; the adapter sends none on it, so
  the write set they commit or undo is empty. \<open>id\<close> is the primary key of both tables,
  and \<open>auth_key.user_id\<close> references \<open>auth_user.id\<close>.
\<close>

record mysql_db =
  auth_user :: "js_values list"
  auth_key :: "js_values list"
  connections :: nat
  openTransactions :: "nat list"

definition duplicateEntry :: thrown where
  "duplicateEntry =
     QueryError (Some 1062) (Some ''ER_DUP_ENTRY'') (Some ''Duplicate entry for key PRIMARY'')"

definition noReferencedRow :: thrown where
  "noReferencedRow =
     QueryError (Some 1452) (Some ''ER_NO_REFERENCED_ROW_2'')
       (Some ''Cannot add or update a child row: FOREIGN KEY (`user_id`) REFERENCES auth_user'')"

definition noSuchTable :: thrown where
  "noSuchTable = QueryError (Some 1146) (Some ''ER_NO_SUCH_TABLE'') (Some ''Table not found'')"

definition idsOf :: "js_values list \<Rightarrow> column_value option list" where
  "idsOf rows = map (\<lambda>row. map_of row ''id'') rows"

definition insertRow :: "string \<Rightarrow> js_values \<Rightarrow> (unit, mysql_db) io" where
  "insertRow table row db =
     (if table = ''auth_user'' then
        (if map_of row ''id'' \<in> set (idsOf (auth_user db)) then (Inl duplicateEntry, db)
         else (Inr (), db\<lparr>auth_user := auth_user db @ [row]\<rparr>))
      else if table = ''auth_key'' then
        (if map_of row ''id'' \<in> set (idsOf (auth_key db)) then (Inl duplicateEntry, db)
         else if map_of row ''user_id'' \<in> set (idsOf (auth_user db))
         then (Inr (), db\<lparr>auth_key := auth_key db @ [row]\<rparr>)
         else (Inl noReferencedRow, db))
      else (Inl noSuchTable, db))"

fun poolRun :: "block list \<Rightarrow> (unit, mysql_db) io" where
  "poolRun [INSERT_INTO table row] db = insertRow table row db"
| "poolRun blocks db = (Inl (QueryError (Some 1064) (Some ''ER_PARSE_ERROR'') None), db)"

definition mysqlPool :: "(mysql_db, nat) mysql2" where
  "mysqlPool =
     \<lparr>getConnection = (\<lambda>db. (Inr (connections db), db\<lparr>connections := Suc (connections db)\<rparr>)),
      beginTransaction =
        (\<lambda>c db. (Inr (), db\<lparr>openTransactions := c # openTransactions db\<rparr>)),
      commit = (\<lambda>c db. (Inr (), db\<lparr>openTransactions := removeAll c (openTransactions db)\<rparr>)),
      rollback =
        (\<lambda>c db. (Inr (), db\<lparr>openTransactions := removeAll c (openTransactions db)\<rparr>)),
      run = poolRun\<rparr>"

subsection \<open>The Prisma adapter\<close>

text \<open>
  The tables behind the Prisma client, and the client calls the adapter makes.
  \<open>deleteMany({where})\<close> removes exactly the rows that agree with \<open>where\<close> on every
  field it names. \<open>$transaction([...])\<close> runs the operations in order and keeps the
  writes of none of them unless all succeed. \<open>create\<close> is a parameter.
\<close>

record prisma_db =
  authUser :: "js_values list"
  authKey :: "js_values list"
  authSession :: "js_values list"

definition matchesWhere :: "js_values \<Rightarrow> js_values \<Rightarrow> bool" where
  "matchesWhere wh row = list_all (\<lambda>kv. map_of row (fst kv) = Some (snd kv)) wh"

definition deleteMany :: "js_values \<Rightarrow> js_values list \<Rightarrow> js_values list" where
  "deleteMany wh rows = filter (\<lambda>row. \<not> matchesWhere wh row) rows"

fun inOrder :: "('a, 's) io list \<Rightarrow> ('a list, 's) io" where
  "inOrder [] s = (Inr [], s)"
| "inOrder (f # fs) s =
     (case f s of
        (Inl e, s1) \<Rightarrow> (Inl e, s1)
      | (Inr x, s1) \<Rightarrow>
          (case inOrder fs s1 of
             (Inl e, s2) \<Rightarrow> (Inl e, s2)
           | (Inr xs, s2) \<Rightarrow> (Inr (x # xs), s2)))"

definition prismaTransaction :: "('a, 's) io list \<Rightarrow> ('a list, 's) io" where
  "prismaTransaction ops s =
     (case inOrder ops s of (Inl e, s1) \<Rightarrow> (Inl e, s) | (Inr xs, s1) \<Rightarrow> (Inr xs, s1))"

record 'db prisma =
  authUserCreate :: "js_values \<Rightarrow> (js_values, 'db) io"
  authKeyCreate :: "js_values \<Rightarrow> (js_values, 'db) io"
  authSessionCreate :: "js_values \<Rightarrow> (js_values, 'db) io"

definition prisma_setUser ::
    "'db prisma \<Rightarrow> string \<Rightarrow> js_values \<Rightarrow> js_values option \<Rightarrow> (js_values option, 'db) io" where
  "prisma_setUser prisma uid attrs key s =
     (let user = spread [(''id'', VString uid)] attrs
      in case key of
           None \<Rightarrow>
             (case authUserCreate prisma user s of
                (Inl e, s1) \<Rightarrow> (Inl e, s1)
              | (Inr databaseUser, s1) \<Rightarrow> (Inr (Some databaseUser), s1))
         | Some k \<Rightarrow>
             (case prismaTransaction [authUserCreate prisma user, authKeyCreate prisma k] s of
                (Inr created, s1) \<Rightarrow> (Inr (case created of [] \<Rightarrow> None | u # us \<Rightarrow> Some u), s1)
              | (Inl e, s1) \<Rightarrow>
                  (if code e = Some ''P2002'' \<and> messageIncludes e ''`id`''
                   then (Inl (LuciaError ''AUTH_DUPLICATE_KEY_ID''), s1)
                   else (Inl e, s1))))"

definition prisma_setSession :: "'db prisma \<Rightarrow> js_values \<Rightarrow> (unit, 'db) io" where
  "prisma_setSession prisma session s =
     (case authSessionCreate prisma session s of
        (Inr created, s1) \<Rightarrow> (Inr (), s1)
      | (Inl e, s1) \<Rightarrow>
          (if code e = Some ''P2003'' then (Inl (LuciaError ''AUTH_INVALID_USER_ID''), s1)
           else if code e = Some ''P2002'' \<and> messageIncludes e ''`id`''
           then (Inl (LuciaError ''AUTH_DUPLICATE_SESSION_ID''), s1)
           else (Inl e, s1)))"

definition deleteNonPrimaryKey :: "string \<Rightarrow> prisma_db \<Rightarrow> prisma_db" where
  "deleteNonPrimaryKey keyId db =
     db\<lparr>authKey :=
          deleteMany [(''id'', VString keyId), (''primary_key'', VBool False)] (authKey db)\<rparr>"

section \<open>Properties of the query builder\<close>

lemma placeholders_append: "placeholders (a @ b) = placeholders a @ placeholders b"
  by (induction a rule: placeholders.induct) simp_all

lemma placeholders_join_text:
  "placeholders (join [Text s] xss) = concat (map placeholders xss)"
  by (induction "[Text s]" xss rule: join.induct) (simp_all add: placeholders_append)

lemma upt_add_Cons: "[i ..< i + Suc n] = i # [Suc i ..< Suc i + n]"
  using upt_conv_Cons [of i "i + Suc n"] by (simp del: upt_Suc)

lemma placeholders_mapi_insert:
  "concat (map placeholders (mapi i (\<lambda>_ j. [Placeholder (n + j + 1)]) xs))
     = map (\<lambda>j. n + j + 1) [i ..< i + length xs]"
proof (induction xs arbitrary: i)
  case Nil
  show ?case by simp
next
  case (Cons x xs)
  have "[i ..< i + length (x # xs)] = i # [Suc i ..< Suc i + length xs]"
    using upt_add_Cons [of i "length xs"] by (simp del: upt_Suc)
  with Cons.IH [of "Suc i"] show ?case by (simp del: upt_Suc)
qed

lemma placeholders_mapi_update:
  "concat (map placeholders
      (mapi i (\<lambda>k j. [Text (escapeName k), Text t, Placeholder (n + j + 1)]) xs))
     = map (\<lambda>j. n + j + 1) [i ..< i + length xs]"
proof (induction xs arbitrary: i)
  case Nil
  show ?case by simp
next
  case (Cons x xs)
  have "[i ..< i + length (x # xs)] = i # [Suc i ..< Suc i + length xs]"
    using upt_add_Cons [of i "length xs"] by (simp del: upt_Suc)
  with Cons.IH [of "Suc i"] show ?case by (simp del: upt_Suc)
qed

lemma placeholders_mapi_where:
  "concat (map placeholders (map queryChunk (mapi i (resolveWhereBlock n) ws)))
     = map (\<lambda>j. n + j + 1) [i ..< i + length ws]"
proof (induction ws arbitrary: i)
  case Nil
  show ?case by simp
next
  case (Cons w ws)
  have "[i ..< i + length (w # ws)] = i # [Suc i ..< Suc i + length ws]"
    using upt_add_Cons [of i "length ws"] by (simp del: upt_Suc)
  with Cons.IH [of "Suc i"] show ?case by (cases w) (simp del: upt_Suc)
qed

lemma foldl_params: "foldl (\<lambda>acc curr. acc @ params curr) a rs = a @ concat (map params rs)"
  by (induction rs arbitrary: a) simp_all

lemma length_params_mapi_where:
  "length (concat (map params (mapi i (resolveWhereBlock n) ws))) = length ws"
proof (induction ws arbitrary: i)
  case Nil show ?case by simp
next
  case (Cons w ws) then show ?case by (cases w) simp
qed

lemma block_placeholders:
  "placeholders (queryChunk (resolveQueryBlock b n))
     = map (\<lambda>j. n + j + 1) [0 ..< length (params (resolveQueryBlock b n))]"
proof (cases b)
  case (INSERT_INTO t vs)
  then show ?thesis
    using placeholders_mapi_insert [of 0 n "keys vs"]
    by (simp add: placeholders_append placeholders_join_text)
next
  case (UPDATE t vs)
  then show ?thesis
    using placeholders_mapi_update [of 0 "'' = ''" n "keys vs"]
    by (simp add: placeholders_append placeholders_join_text)
next
  case (AND ws)
  then show ?thesis
    using placeholders_mapi_where [of 0 n ws]
    by (simp add: Let_def placeholders_join_text foldl_params length_params_mapi_where)
qed simp_all

lemma upt_shift: "map (\<lambda>j. n + j + 1) [0 ..< m] = [Suc n ..< Suc (n + m)]"
  by (induction m) simp_all

lemma resolveLoop_placeholders:
  "resolveLoop bs qs ps = (qs', ps') \<Longrightarrow>
   concat (map placeholders qs) = [1 ..< Suc (length ps)] \<Longrightarrow>
   concat (map placeholders qs') = [1 ..< Suc (length ps')]"
proof (induction bs arbitrary: qs ps)
  case Nil
  then show ?case by simp
next
  case (Cons b bs)
  let ?r = "resolveQueryBlock b (length ps)"
  have step: "resolveLoop bs (qs @ [queryChunk ?r]) (ps @ params ?r) = (qs', ps')"
    using Cons.prems(1) by (simp add: Let_def)
  have "concat (map placeholders (qs @ [queryChunk ?r]))
      = [1 ..< Suc (length ps)] @ [Suc (length ps) ..< Suc (length ps) + length (params ?r)]"
    using Cons.prems(2) upt_shift [of "length ps" "length (params ?r)"]
    by (simp add: block_placeholders del: upt_Suc)
  also have "\<dots> = [1 ..< Suc (length (ps @ params ?r))]"
    using upt_add_eq_append [of 1 "Suc (length ps)" "length (params ?r)"]
    by (simp del: upt_Suc)
  finally show ?case using Cons.IH [OF step] by simp
qed

text \<open>The statement and the parameters built for an update of a key.\<close>

lemma render_example:
  "render (statement (resolveQueryBlocks
      [UPDATE ''auth_key'' [(''hashed_password'', VString ''h''), (''expires'', VNull)],
       AND [WhereBlock ''id'' ''='' (VString ''k''), WhereBlock ''primary_key'' ''='' (VBool False)]]))
   = ''UPDATE \"auth_key\" SET \"hashed_password\" = $1,\"expires\" = $2 WHERE id = $3 AND primary_key = $4''
 \<and> query_params (resolveQueryBlocks
      [UPDATE ''auth_key'' [(''hashed_password'', VString ''h''), (''expires'', VNull)],
       AND [WhereBlock ''id'' ''='' (VString ''k''), WhereBlock ''primary_key'' ''='' (VBool False)]])
   = [VString ''h'', VNull, VString ''k'', VBool False]"
  by (simp add: resolveQueryBlocks_def render_def escapeName_def keys_def lookup_def Let_def
        digit_def decimal.simps)

lemma statement_placeholders:
  "placeholders (statement (resolveQueryBlocks queryBlocks))
     = [1 ..< Suc (length (query_params (resolveQueryBlocks queryBlocks)))]"
proof -
  obtain qs ps where loop: "resolveLoop queryBlocks [] [] = (qs, ps)"
    by (cases "resolveLoop queryBlocks [] []")
  have "concat (map placeholders qs) = [1 ..< Suc (length ps)]"
    using resolveLoop_placeholders [OF loop] by simp
  then show ?thesis
    by (simp add: resolveQueryBlocks_def loop placeholders_join_text)
qed

text \<open>
  The parameters a block returns are the values it binds, and binding them to the
  placeholders of its chunk gives the block's text with every value next to its column,
  wherever the block's parameters lie in the parameter list.
\<close>

lemma literal_append: "literal (a @ b) = literal a @ literal b"
  by (simp add: literal_def)

lemma bindParams_append: "bindParams P (a @ b) = bindParams P a @ bindParams P b"
  by (simp add: bindParams_def)

lemma bindParams_Cons: "bindParams P (x # a) = bindPiece P x @ bindParams P a"
  by (simp add: bindParams_def)

lemma bindParams_Nil: "bindParams P [] = []"
  by (simp add: bindParams_def)

lemma bindParams_join:
  "bindParams P (join sep xs) = join (bindParams P sep) (map (bindParams P) xs)"
  by (induction sep xs rule: join.induct) (simp_all add: bindParams_append bindParams_Nil)

lemma map_mapi: "map h (mapi i f xs) = mapi i (\<lambda>x j. h (f x j)) xs"
  by (induction xs arbitrary: i) simp_all

lemma bind_mapi:
  assumes f: "\<And>x j P. n + j < length P \<Longrightarrow> bindParams P (f x j) = g x @ [Inr (P ! (n + j))]"
  shows "length pre = n + i \<Longrightarrow>
         map (bindParams (pre @ map val xs @ suf)) (mapi i f xs)
           = map (\<lambda>x. g x @ [Inr (val x)]) xs"
proof (induction xs arbitrary: pre i)
  case Nil
  show ?case by simp
next
  case (Cons x xs)
  let ?P = "pre @ map val (x # xs) @ suf"
  have here: "bindParams ?P (f x i) = g x @ [Inr (val x)]"
    using f [of i ?P x] Cons.prems by (simp add: nth_append)
  have "length (pre @ [val x]) = n + Suc i"
    using Cons.prems by simp
  from Cons.IH [OF this]
  have "map (bindParams ((pre @ [val x]) @ map val xs @ suf)) (mapi (Suc i) f xs)
          = map (\<lambda>x. g x @ [Inr (val x)]) xs" .
  then show ?case using here by simp
qed

lemma block_params: "params (resolveQueryBlock b n) = blockValues b"
proof (cases b)
  case (AND ws)
  have "concat (map params (mapi i (resolveWhereBlock n) ws)) = map whereValue ws" for i
  proof (induction ws arbitrary: i)
    case Nil show ?case by simp
  next
    case (Cons w ws) then show ?case by (cases w) simp
  qed
  then show ?thesis using AND by (simp add: Let_def foldl_params)
qed simp_all

lemma block_binds:
  assumes "length pre = n"
  shows "bindParams (pre @ blockValues b @ suf) (queryChunk (resolveQueryBlock b n)) = written b"
proof (cases b)
  case (INSERT_INTO t vs)
  have "map (bindParams (pre @ map (lookup vs) (keys vs) @ suf))
          (mapi 0 (\<lambda>_ j. [Placeholder (n + j + 1)]) (keys vs))
        = map (\<lambda>k. [] @ [Inr (lookup vs k)]) (keys vs)"
    by (rule bind_mapi [where n = n]) (simp_all add: bindParams_def assms)
  then show ?thesis
    using INSERT_INTO
    by (simp add: bindParams_append bindParams_Cons bindParams_Nil bindParams_join
          literal_def)
next
  case (UPDATE t vs)
  have "map (bindParams (pre @ map (lookup vs) (keys vs) @ suf))
          (mapi 0 (\<lambda>k j. [Text (escapeName k), Text '' = '', Placeholder (n + j + 1)]) (keys vs))
        = map (\<lambda>k. literal (escapeName k @ '' = '') @ [Inr (lookup vs k)]) (keys vs)"
    by (rule bind_mapi [where n = n]) (simp_all add: bindParams_def assms literal_def)
  then show ?thesis
    using UPDATE
    by (simp add: bindParams_append bindParams_Cons bindParams_Nil bindParams_join
          literal_def)
next
  case (AND ws)
  have chunk: "bindParams P (queryChunk (resolveWhereBlock n w j))
      = literal (hd (whereTexts w) @ '' '' @ hd (tl (whereTexts w)) @ '' '') @ [Inr (P ! (n + j))]"
    if "n + j < length P" for P w j
    using that by (cases w) (simp add: bindParams_def literal_def)
  have "map (bindParams (pre @ map whereValue ws @ suf))
          (mapi 0 (\<lambda>w j. queryChunk (resolveWhereBlock n w j)) ws)
        = map (\<lambda>w. literal (hd (whereTexts w) @ '' '' @ hd (tl (whereTexts w)) @ '' '')
                     @ [Inr (whereValue w)]) ws"
    by (rule bind_mapi [where n = n]) (simp_all add: chunk assms)
  moreover have "(\<lambda>w. literal (hd (whereTexts w) @ '' '' @ hd (tl (whereTexts w)) @ '' '')
                     @ [Inr (whereValue w)]) = writtenWhere"
  proof
    fix w show "literal (hd (whereTexts w) @ '' '' @ hd (tl (whereTexts w)) @ '' '')
                     @ [Inr (whereValue w)] = writtenWhere w"
      by (cases w) simp
  qed
  ultimately show ?thesis
    using AND
    by (simp add: Let_def map_mapi bindParams_Cons bindParams_Nil bindParams_join)
next
  case (WHERE c cmp v)
  then show ?thesis
    using assms by (simp add: bindParams_def literal_def nth_append)
qed (simp_all add: bindParams_def literal_def)

lemma resolveLoop_binds:
  "resolveLoop bs qs ps = (qs', ps') \<Longrightarrow>
   \<exists>rest. qs' = qs @ rest \<and> ps' = ps @ concat (map blockValues bs)
      \<and> (\<forall>suf. map (bindParams (ps' @ suf)) rest = map written bs)"
proof (induction bs arbitrary: qs ps)
  case Nil
  then show ?case by simp
next
  case (Cons b bs)
  let ?r = "resolveQueryBlock b (length ps)"
  have "resolveLoop bs (qs @ [queryChunk ?r]) (ps @ blockValues b) = (qs', ps')"
    using Cons.prems by (simp add: Let_def block_params)
  from Cons.IH [OF this] obtain rest where
    qs': "qs' = (qs @ [queryChunk ?r]) @ rest" and
    ps': "ps' = (ps @ blockValues b) @ concat (map blockValues bs)" and
    bound: "\<And>suf. map (bindParams (ps' @ suf)) rest = map written bs"
    by blast
  have "bindParams (ps' @ suf) (queryChunk ?r) = written b" for suf
    using block_binds [of ps "length ps" b "concat (map blockValues bs) @ suf"]
    by (simp add: ps')
  then have "\<forall>suf. map (bindParams (ps' @ suf)) (queryChunk ?r # rest) = map written (b # bs)"
    using bound by simp
  then show ?case using qs' ps' by auto
qed

lemma resolveQueryBlocks_binds:
  "query_params (resolveQueryBlocks bs) = concat (map blockValues bs)
 \<and> bindParams (query_params (resolveQueryBlocks bs)) (statement (resolveQueryBlocks bs))
     = join (literal '' '') (map written bs)"
proof -
  obtain qs ps where loop: "resolveLoop bs [] [] = (qs, ps)"
    by (cases "resolveLoop bs [] []")
  from resolveLoop_binds [OF loop] obtain rest where
    "qs = rest" "ps = concat (map blockValues bs)"
    and bound: "\<And>suf. map (bindParams (ps @ suf)) rest = map written bs"
    by auto
  then show ?thesis
    using bound [of "[]"]
    by (simp add: resolveQueryBlocks_def loop bindParams_join bindParams_Cons bindParams_Nil)
qed

text \<open>For an object, whose keys are distinct, the bound values are those of its entries.\<close>

lemma object_values:
  assumes "distinct (map fst vs)"
  shows "map (\<lambda>k. lookup vs k) (keys vs) = map snd vs"
proof -
  have "lookup vs (fst kv) = snd kv" if "kv \<in> set vs" for kv
    using map_of_is_SomeI [OF assms, of "fst kv" "snd kv"] that by (simp add: lookup_def)
  then show ?thesis by (simp add: keys_def)
qed

text \<open>
  Reading the placeholders off the string: a numeral reads back as its number, and on a
  statement whose text pieces hold no \<open>$\<close> the reader finds the interpolated
  placeholders and nothing else.
\<close>

lemma digit_is_digit:
  assumes "n < 10"
  shows "isDigit (digit n) \<and> digitValue (digit n) = n"
proof -
  have "list_all (\<lambda>k. isDigit (digit k) \<and> digitValue (digit k) = k) [0 ..< 10]"
    by code_simp
  with assms show ?thesis by (simp add: list_all_iff)
qed

lemma numberOf_snoc: "numberOf (ds @ [d]) = 10 * numberOf ds + digitValue d"
  by (simp add: numberOf_def)

lemma decimal_reads_back:
  "list_all isDigit (decimal n) \<and> decimal n \<noteq> [] \<and> numberOf (decimal n) = n"
proof (induction n rule: decimal.induct)
  case (1 n)
  show ?case
  proof (cases "n < 10")
    case True
    then show ?thesis
      using digit_is_digit [of n] by (simp add: decimal.simps [of n] numberOf_def)
  next
    case False
    then have "n mod 10 < 10" by simp
    with False "1.IH" show ?thesis
      using digit_is_digit [of "n mod 10"]
      by (simp add: decimal.simps [of n] numberOf_snoc)
  qed
qed

lemma dollar_not_digit: "\<not> isDigit CHR ''$''"
  by (simp add: isDigit_def)

lemma scan_text: "CHR ''$'' \<notin> set s \<Longrightarrow> scanPlaceholders (s @ t) = scanPlaceholders t"
  by (induction s) auto

lemma scan_placeholder:
  assumes "takeWhile isDigit t = []"
  shows "scanPlaceholders (CHR ''$'' # decimal n @ t) = n # scanPlaceholders t"
proof -
  have digits: "\<And>c. c \<in> set (decimal n) \<Longrightarrow> isDigit c"
    using decimal_reads_back [of n] by (simp add: list_all_iff)
  have tw: "takeWhile isDigit (decimal n @ t) = decimal n"
    using digits assms by (simp add: takeWhile_append2)
  have "dropWhile isDigit t = t"
    using assms takeWhile_dropWhile_id [of isDigit t] by simp
  then have dw: "dropWhile isDigit (decimal n @ t) = t"
    using digits by (simp add: dropWhile_append2)
  show ?thesis
    using decimal_reads_back [of n] by (simp add: tw dw)
qed

lemma render_Cons: "render (p # ps) = render_piece p @ render ps"
  by (simp add: render_def)

lemma startsClean_render: "startsClean ps \<Longrightarrow> takeWhile isDigit (render ps) = []"
proof (cases ps)
  case Nil
  then show ?thesis by (simp add: render_def)
next
  case (Cons p qs)
  assume "startsClean ps"
  with Cons show ?thesis
    by (cases p) (auto simp: render_Cons dollar_not_digit split: list.splits)
qed

lemma scan_render: "unambiguous ps \<Longrightarrow> scanPlaceholders (render ps) = placeholders ps"
proof (induction ps rule: unambiguous.induct)
  case 1
  show ?case by (simp add: render_def)
next
  case (2 s ps)
  then show ?case by (simp add: render_Cons scan_text)
next
  case (3 n ps)
  then show ?case
    using scan_placeholder [OF startsClean_render, of ps n] by (simp add: render_Cons)
qed

lemma startsClean_append: "ps \<noteq> [] \<Longrightarrow> startsClean (ps @ qs) = startsClean ps"
  by (cases ps rule: startsClean.cases) simp_all

lemma unambiguous_append_text:
  "unambiguous a \<Longrightarrow> startsClean [Text s] \<Longrightarrow> unambiguous (Text s # b) \<Longrightarrow>
   unambiguous (a @ Text s # b)"
proof (induction a rule: unambiguous.induct)
  case 1
  then show ?case by simp
next
  case (2 t ps)
  then show ?case by simp
next
  case (3 n ps)
  then show ?case
    by (cases "ps = []") (simp_all add: startsClean_append)
qed

lemma unambiguous_join:
  "CHR ''$'' \<notin> set s \<Longrightarrow> startsClean [Text s] \<Longrightarrow> \<forall>x \<in> set xs. unambiguous x \<Longrightarrow>
   unambiguous (join [Text s] xs)"
proof (induction "[Text s]" xs rule: join.induct)
  case 1
  show ?case by simp
next
  case (2 x)
  then show ?case by simp
next
  case (3 x y ys)
  then show ?case
    using unambiguous_append_text [of x s "join [Text s] (y # ys)"] by simp
qed

lemma set_mapi: "x \<in> set (mapi i f xs) \<Longrightarrow> \<exists>y \<in> set xs. \<exists>j. x = f y j"
  by (induction xs arbitrary: i) auto

lemma dollar_free_join:
  "CHR ''$'' \<notin> set sep \<Longrightarrow> \<forall>x \<in> set xs. CHR ''$'' \<notin> set x \<Longrightarrow> CHR ''$'' \<notin> set (join sep xs)"
  by (induction sep xs rule: join.induct) simp_all

lemma dollar_free_escapeName: "CHR ''$'' \<notin> set v \<Longrightarrow> CHR ''$'' \<notin> set (escapeName v)"
  by (simp add: escapeName_def)

lemma escapeName_clean: "startsClean [Text (escapeName v)]"
  by (simp add: escapeName_def isDigit_def)

lemma block_unambiguous:
  assumes "dollarFree b"
  shows "unambiguous (queryChunk (resolveQueryBlock b n))"
proof (cases b)
  case (INSERT_INTO t vs)
  have "\<forall>x \<in> set (mapi 0 (\<lambda>_ j. [Placeholder (n + j + 1)]) (keys vs)). unambiguous x"
    by (auto dest: set_mapi)
  then have "unambiguous (join [Text '',''] (mapi 0 (\<lambda>_ j. [Placeholder (n + j + 1)]) (keys vs)))"
    by (intro unambiguous_join) (simp_all add: isDigit_def)
  then have "unambiguous (join [Text '',''] (mapi 0 (\<lambda>_ j. [Placeholder (n + j + 1)]) (keys vs))
               @ Text '')'' # [])"
    by (intro unambiguous_append_text) (simp_all add: isDigit_def)
  then show ?thesis
    using INSERT_INTO assms
    by (simp add: dollarFree_def dollar_free_escapeName dollar_free_join list_all_iff)
next
  case (UPDATE t vs)
  have "\<forall>x \<in> set (mapi 0 (\<lambda>k j. [Text (escapeName k), Text '' = '', Placeholder (n + j + 1)])
                    (keys vs)). unambiguous x"
    using UPDATE assms
    by (auto dest!: set_mapi simp: dollarFree_def list_all_iff dollar_free_escapeName)
  then have "unambiguous (join [Text '','']
      (mapi 0 (\<lambda>k j. [Text (escapeName k), Text '' = '', Placeholder (n + j + 1)]) (keys vs)))"
    by (intro unambiguous_join) (simp_all add: isDigit_def)
  then show ?thesis
    using UPDATE assms by (simp add: dollarFree_def dollar_free_escapeName)
next
  case (AND ws)
  have "\<forall>x \<in> set (map queryChunk (mapi 0 (resolveWhereBlock n) ws)). unambiguous x"
  proof
    fix x assume "x \<in> set (map queryChunk (mapi 0 (resolveWhereBlock n) ws))"
    then obtain r where "r \<in> set (mapi 0 (resolveWhereBlock n) ws)" and x: "x = queryChunk r"
      by auto
    then obtain w j where w: "w \<in> set ws" and r: "r = resolveWhereBlock n w j"
      by (auto dest: set_mapi)
    from w AND assms have "list_all (\<lambda>s. CHR ''$'' \<notin> set s) (whereTexts w)"
      by (auto simp: dollarFree_def list_all_iff)
    then show "unambiguous x"
      using x r by (cases w) simp
  qed
  then have "unambiguous (join [Text '' AND ''] (map queryChunk (mapi 0 (resolveWhereBlock n) ws)))"
    by (intro unambiguous_join) (simp_all add: isDigit_def)
  then show ?thesis
    using AND by (simp add: Let_def)
next
  case (SELECT t cs)
  then show ?thesis
    using assms by (simp add: dollarFree_def dollar_free_escapeName dollar_free_join list_all_iff)
next
  case (RETURNING cs)
  then show ?thesis
    using assms by (simp add: dollarFree_def dollar_free_join list_all_iff)
qed (use assms in \<open>simp_all add: dollarFree_def dollar_free_escapeName\<close>)

lemma resolveLoop_unambiguous:
  "resolveLoop bs qs ps = (qs', ps') \<Longrightarrow> list_all dollarFree bs \<Longrightarrow>
   \<forall>q \<in> set qs. unambiguous q \<Longrightarrow> \<forall>q \<in> set qs'. unambiguous q"
proof (induction bs arbitrary: qs ps)
  case Nil
  then show ?case by simp
next
  case (Cons b bs)
  let ?r = "resolveQueryBlock b (length ps)"
  have step: "resolveLoop bs (qs @ [queryChunk ?r]) (ps @ params ?r) = (qs', ps')"
    using Cons.prems(1) by (simp add: Let_def)
  have "\<forall>q \<in> set (qs @ [queryChunk ?r]). unambiguous q"
    using Cons.prems(2,3) block_unambiguous [of b "length ps"] by simp
  from Cons.IH [OF step _ this] Cons.prems(2) show ?case by simp
qed

lemma statement_unambiguous:
  assumes "list_all dollarFree bs"
  shows "unambiguous (statement (resolveQueryBlocks bs))"
proof -
  obtain qs ps where loop: "resolveLoop bs [] [] = (qs, ps)"
    by (cases "resolveLoop bs [] []")
  have "\<forall>q \<in> set qs. unambiguous q"
    using resolveLoop_unambiguous [OF loop assms] by simp
  then have "unambiguous (join [Text '' ''] qs)"
    by (intro unambiguous_join) (simp_all add: isDigit_def)
  then show ?thesis by (simp add: resolveQueryBlocks_def loop)
qed

text \<open>
  C10, as amended. For every list of query blocks: the placeholders \<open>resolveQueryBlocks\<close>
  interpolates into the statement are, left to right, \<open>$1, $2, ..., $N\<close>, where \<open>N\<close> is
  the length of the parameter list it returns; the parameter list is the values of the
  blocks in block order (for \<open>INSERT_INTO\<close> and \<open>UPDATE\<close> the value \<open>values[k]\<close> of
  every key \<open>k\<close> in key order, for \<open>WHERE\<close> its value, for \<open>AND\<close> the values of its
  conditions in order, for the other blocks none); and replacing every \<open>$k\<close> by
  \<open>params[k-1]\<close> gives the statement with each value standing next to its own column,
  so the \<open>k\<close>-th placeholder is bound to the value of the column it is written for.
  When no table name, column name or comparator of the blocks contains a \<open>$\<close>, the
  placeholders read off the returned statement string are exactly these, \<open>$1\<close> to
  \<open>$N\<close> in order.
\<close>

theorem resolveQueryBlocks_binds_values:
  "placeholders (statement (resolveQueryBlocks queryBlocks))
     = [1 ..< Suc (length (query_params (resolveQueryBlocks queryBlocks)))]
 \<and> query_params (resolveQueryBlocks queryBlocks) = concat (map blockValues queryBlocks)
 \<and> bindParams (query_params (resolveQueryBlocks queryBlocks))
       (statement (resolveQueryBlocks queryBlocks))
     = join (literal '' '') (map written queryBlocks)
 \<and> (list_all dollarFree queryBlocks \<longrightarrow>
      scanPlaceholders (render (statement (resolveQueryBlocks queryBlocks)))
        = [1 ..< Suc (length (query_params (resolveQueryBlocks queryBlocks)))])"
proof (intro conjI impI)
  show "placeholders (statement (resolveQueryBlocks queryBlocks))
     = [1 ..< Suc (length (query_params (resolveQueryBlocks queryBlocks)))]"
    by (rule statement_placeholders)
  show "query_params (resolveQueryBlocks queryBlocks) = concat (map blockValues queryBlocks)"
    using resolveQueryBlocks_binds [of queryBlocks] by (rule conjunct1)
  show "bindParams (query_params (resolveQueryBlocks queryBlocks))
       (statement (resolveQueryBlocks queryBlocks))
     = join (literal '' '') (map written queryBlocks)"
    using resolveQueryBlocks_binds [of queryBlocks] by (rule conjunct2)
  assume "list_all dollarFree queryBlocks"
  then have "scanPlaceholders (render (statement (resolveQueryBlocks queryBlocks)))
      = placeholders (statement (resolveQueryBlocks queryBlocks))"
    by (intro scan_render statement_unambiguous)
  then show "scanPlaceholders (render (statement (resolveQueryBlocks queryBlocks)))
        = [1 ..< Suc (length (query_params (resolveQueryBlocks queryBlocks)))]"
    by (simp only: statement_placeholders)
qed

text \<open>
  The theorem at an update of a key: the statement string, the placeholders read off it,
  the parameters, and the statement with the parameters bound.
\<close>

theorem resolveQueryBlocks_binds_values_witness:
  "list_all dollarFree
     [UPDATE ''auth_key'' [(''hashed_password'', VString ''h''), (''expires'', VNull)],
      AND [WhereBlock ''id'' ''='' (VString ''k''),
           WhereBlock ''primary_key'' ''='' (VBool False)]]
 \<and> render (statement (resolveQueryBlocks
     [UPDATE ''auth_key'' [(''hashed_password'', VString ''h''), (''expires'', VNull)],
      AND [WhereBlock ''id'' ''='' (VString ''k''),
           WhereBlock ''primary_key'' ''='' (VBool False)]]))
   = ''UPDATE \"auth_key\" SET \"hashed_password\" = $1,\"expires\" = $2 WHERE id = $3 AND primary_key = $4''
 \<and> scanPlaceholders (render (statement (resolveQueryBlocks
     [UPDATE ''auth_key'' [(''hashed_password'', VString ''h''), (''expires'', VNull)],
      AND [WhereBlock ''id'' ''='' (VString ''k''),
           WhereBlock ''primary_key'' ''='' (VBool False)]])))
   = [1, 2, 3, 4]
 \<and> query_params (resolveQueryBlocks
     [UPDATE ''auth_key'' [(''hashed_password'', VString ''h''), (''expires'', VNull)],
      AND [WhereBlock ''id'' ''='' (VString ''k''),
           WhereBlock ''primary_key'' ''='' (VBool False)]])
   = [VString ''h'', VNull, VString ''k'', VBool False]
 \<and> bindParams [VString ''h'', VNull, VString ''k'', VBool False]
      (statement (resolveQueryBlocks
     [UPDATE ''auth_key'' [(''hashed_password'', VString ''h''), (''expires'', VNull)],
      AND [WhereBlock ''id'' ''='' (VString ''k''),
           WhereBlock ''primary_key'' ''='' (VBool False)]]))
   = literal ''UPDATE \"auth_key\" SET \"hashed_password\" = '' @ [Inr (VString ''h'')]
     @ literal '',\"expires\" = '' @ [Inr VNull]
     @ literal '' WHERE id = '' @ [Inr (VString ''k'')]
     @ literal '' AND primary_key = '' @ [Inr (VBool False)]"
  using resolveQueryBlocks_binds_values
    [of "[UPDATE ''auth_key'' [(''hashed_password'', VString ''h''), (''expires'', VNull)],
          AND [WhereBlock ''id'' ''='' (VString ''k''),
               WhereBlock ''primary_key'' ''='' (VBool False)]]"]
  by (simp add: resolveQueryBlocks_def render_def escapeName_def keys_def lookup_def Let_def
        digit_def decimal.simps dollarFree_def bindParams_def literal_def)

text \<open>
  C10, the claim as stated fails. Column names and comparators go into the statement
  unescaped. For the single block \<open>WHERE\<close> on a column named \<open>$2\<close> the statement is
  \<open>WHERE $2 = $1\<close> with one parameter: its placeholders, left to right, are \<open>$2\<close> and
  \<open>$1\<close>, not \<open>$1\<close> alone.
\<close>

theorem statement_placeholders_out_of_order:
  "render (statement (resolveQueryBlocks [WHERE ''$2'' ''='' (VString ''x'')]))
     = ''WHERE $2 = $1''
 \<and> scanPlaceholders (render (statement (resolveQueryBlocks [WHERE ''$2'' ''='' (VString ''x'')])))
     = [2, 1]
 \<and> query_params (resolveQueryBlocks [WHERE ''$2'' ''='' (VString ''x'')]) = [VString ''x'']
 \<and> scanPlaceholders (render (statement (resolveQueryBlocks [WHERE ''$2'' ''='' (VString ''x'')])))
     \<noteq> [1 ..< Suc (length (query_params (resolveQueryBlocks [WHERE ''$2'' ''='' (VString ''x'')])))]"
  by (simp add: resolveQueryBlocks_def render_def digit_def decimal.simps isDigit_def
        numberOf_def digitValue_def)

section \<open>Properties of the expiration policy\<close>

text \<open>
  C6. For all timestamps \<open>now\<close>, \<open>a\<close>, \<open>i\<close> with \<open>a < i\<close>, the state is active
  exactly when \<open>now < a\<close>, idle exactly when \<open>a \<le> now < i\<close>, and dead exactly when
  \<open>now \<ge> i\<close> (so exactly one of the three holds); at \<open>now = a\<close> it is idle and at
  \<open>now = i\<close> it is dead.
\<close>

theorem expirationState_cases:
  assumes "a < i"
  shows "(expirationState t a i = active \<longleftrightarrow> t < a)
       \<and> (expirationState t a i = idle \<longleftrightarrow> a \<le> t \<and> t < i)
       \<and> (expirationState t a i = dead \<longleftrightarrow> i \<le> t)
       \<and> expirationState a a i = idle
       \<and> expirationState i a i = dead"
  using assms by (auto simp: expirationState_def)

theorem expirationState_cases_witness:
  "(100::int) < 200
   \<and> expirationState 50 100 200 = active
   \<and> expirationState 150 100 200 = idle
   \<and> expirationState 250 100 200 = dead
   \<and> expirationState 100 100 200 = idle
   \<and> expirationState 200 100 200 = dead"
proof -
  have h: "(100::int) < 200" by simp
  show ?thesis
    using expirationState_cases [OF h, of 50] expirationState_cases [OF h, of 150]
      expirationState_cases [OF h, of 250]
    by simp
qed

section \<open>Properties of the request validator\<close>

text \<open>
  A second \<open>validate()\<close> on the object a first one left returns the same result and
  leaves object and world as they are.
\<close>

lemma validate_memoized:
  "validate auth r w = (p, r1, w1) \<Longrightarrow> validate auth r1 w2 = (p, r1, w2)"
  by (auto simp: validate_def setSessionCookie_def Let_def
           split: option.splits prod.splits sum.splits if_splits)

text \<open>
  C1. The claim: within one request the underlying validation runs at most once per
  kind, a repeated \<open>validateBearerToken()\<close> returns its first result without querying
  storage again, and the cookie result and the bearer result are independent. The code
  at a request with cookie \<open>c1\<close> and bearer token \<open>b1\<close>, in three calls, each on the
  object and the world the one before left: \<open>validateBearerToken()\<close> leaves
  \<open>validateBearerTokenPromise\<close> unset (it stores its promise in \<open>validatePromise\<close>), a
  second \<open>validateBearerToken()\<close> calls \<open>auth.validateSession\<close> a second time, and a
  \<open>validate()\<close> after them returns the bearer session \<open>b1\<close> without ever validating
  the cookie \<open>c1\<close>.
\<close>

theorem validateBearerToken_not_memoized:
  "validateBearerToken countingAuth
     \<lparr>storedSessionId = Some ''c1'', bearerToken = Some ''b1'', validatePromise = None,
      validateBearerTokenPromise = None\<rparr>
     \<lparr>storage = 0, validateSessionCalls = [], cookies = []\<rparr>
   = (Resolved (Some \<lparr>sessionId = ''b1'', userId = ''u1'', activePeriodExpiresAt = 1,
                        idlePeriodExpiresAt = 2, attributes = [], state = active,
                        fresh = False\<rparr>),
      \<lparr>storedSessionId = Some ''c1'', bearerToken = Some ''b1'',
       validatePromise =
         Some (Resolved (Some \<lparr>sessionId = ''b1'', userId = ''u1'', activePeriodExpiresAt = 1,
                        idlePeriodExpiresAt = 2, attributes = [], state = active,
                        fresh = False\<rparr>)),
       validateBearerTokenPromise = None\<rparr>,
      \<lparr>storage = 1, validateSessionCalls = [''b1''], cookies = []\<rparr>)
 \<and> validateBearerToken countingAuth
     \<lparr>storedSessionId = Some ''c1'', bearerToken = Some ''b1'',
       validatePromise =
         Some (Resolved (Some \<lparr>sessionId = ''b1'', userId = ''u1'', activePeriodExpiresAt = 1,
                        idlePeriodExpiresAt = 2, attributes = [], state = active,
                        fresh = False\<rparr>)),
       validateBearerTokenPromise = None\<rparr>
     \<lparr>storage = 1, validateSessionCalls = [''b1''], cookies = []\<rparr>
   = (Resolved (Some \<lparr>sessionId = ''b1'', userId = ''u1'', activePeriodExpiresAt = 1,
                        idlePeriodExpiresAt = 2, attributes = [], state = active,
                        fresh = False\<rparr>),
      \<lparr>storedSessionId = Some ''c1'', bearerToken = Some ''b1'',
       validatePromise =
         Some (Resolved (Some \<lparr>sessionId = ''b1'', userId = ''u1'', activePeriodExpiresAt = 1,
                        idlePeriodExpiresAt = 2, attributes = [], state = active,
                        fresh = False\<rparr>)),
       validateBearerTokenPromise = None\<rparr>,
      \<lparr>storage = 2, validateSessionCalls = [''b1'', ''b1''], cookies = []\<rparr>)
 \<and> validate countingAuth
     \<lparr>storedSessionId = Some ''c1'', bearerToken = Some ''b1'',
       validatePromise =
         Some (Resolved (Some \<lparr>sessionId = ''b1'', userId = ''u1'', activePeriodExpiresAt = 1,
                        idlePeriodExpiresAt = 2, attributes = [], state = active,
                        fresh = False\<rparr>)),
       validateBearerTokenPromise = None\<rparr>
     \<lparr>storage = 2, validateSessionCalls = [''b1'', ''b1''], cookies = []\<rparr>
   = (Resolved (Some \<lparr>sessionId = ''b1'', userId = ''u1'', activePeriodExpiresAt = 1,
                        idlePeriodExpiresAt = 2, attributes = [], state = active,
                        fresh = False\<rparr>),
      \<lparr>storedSessionId = Some ''c1'', bearerToken = Some ''b1'',
       validatePromise =
         Some (Resolved (Some \<lparr>sessionId = ''b1'', userId = ''u1'', activePeriodExpiresAt = 1,
                        idlePeriodExpiresAt = 2, attributes = [], state = active,
                        fresh = False\<rparr>)),
       validateBearerTokenPromise = None\<rparr>,
      \<lparr>storage = 2, validateSessionCalls = [''b1'', ''b1''], cookies = []\<rparr>)"
  by (simp add: validateBearerToken_def validate_def callValidateSession_def countingAuth_def)

text \<open>
  C2, as amended. \<open>validateBearerToken()\<close> resolves the bearer token through
  \<open>auth.validateSession\<close>, the validation \<open>validate()\<close> uses, and writes no cookie: an
  absent or empty token yields none and leaves the world as it is; otherwise
  \<open>validateSession\<close> is called once on the token, storage is left as that call leaves
  it, the session it returns is returned, and a \<open>LuciaError\<close> it throws yields none.
  With the session manager of the spec behind \<open>auth\<close>, an idle session presented as
  bearer token is therefore renewed: its row is deleted, a replacement row for the same
  user with the same attributes is inserted, and the replacement is returned as a fresh
  session; an active session is returned as it is, and storage is left unchanged.
\<close>

theorem validateBearerToken_validates:
  assumes "validateBearerTokenPromise r = None"
  shows "(truthy (bearerToken r) = None \<longrightarrow>
            validateBearerToken auth r w
              = (Resolved None, r\<lparr>validatePromise := Some (Resolved None)\<rparr>, w))
       \<and> (\<forall>token session st.
            truthy (bearerToken r) = Some token
            \<and> validateSession auth token (storage w) = (Inr session, st) \<longrightarrow>
            validateBearerToken auth r w
              = (Resolved (Some session),
                 r\<lparr>validatePromise := Some (Resolved (Some session))\<rparr>,
                 w\<lparr>storage := st, validateSessionCalls := validateSessionCalls w @ [token]\<rparr>))
       \<and> (\<forall>token e st.
            truthy (bearerToken r) = Some token
            \<and> validateSession auth token (storage w) = (Inl e, st) \<and> isLuciaError e \<longrightarrow>
            validateBearerToken auth r w
              = (Resolved None, r\<lparr>validatePromise := Some (Resolved None)\<rparr>,
                 w\<lparr>storage := st, validateSessionCalls := validateSessionCalls w @ [token]\<rparr>))
       \<and> (\<forall>token s.
            truthy (bearerToken r) = Some token
            \<and> find (\<lambda>x. sessionId x = token) (sessions (storage v)) = Some s
            \<and> expirationState (now (storage v)) (activePeriodExpiresAt s)
                  (idlePeriodExpiresAt s) = idle \<longrightarrow>
            (case validateBearerToken (luciaAuth activePeriod idlePeriod) r v of
               (p, r1, v1) \<Rightarrow>
                 p = Resolved (Some
                       \<lparr>sessionId = generate (generated (storage v)),
                        userId = userId s,
                        activePeriodExpiresAt = now (storage v) + activePeriod,
                        idlePeriodExpiresAt = now (storage v) + activePeriod + idlePeriod,
                        attributes = attributes s, state = active, fresh = True\<rparr>)
                 \<and> sessions (storage v1)
                     = filter (\<lambda>x. sessionId x \<noteq> token) (sessions (storage v))
                       @ [\<lparr>sessionId = generate (generated (storage v)),
                           userId = userId s,
                           activePeriodExpiresAt = now (storage v) + activePeriod,
                           idlePeriodExpiresAt = now (storage v) + activePeriod + idlePeriod,
                           attributes = attributes s\<rparr>]
                 \<and> cookies v1 = cookies v))
       \<and> (\<forall>token s.
            truthy (bearerToken r) = Some token
            \<and> find (\<lambda>x. sessionId x = token) (sessions (storage v)) = Some s
            \<and> expirationState (now (storage v)) (activePeriodExpiresAt s)
                  (idlePeriodExpiresAt s) = active \<longrightarrow>
            validateBearerToken (luciaAuth activePeriod idlePeriod) r v
              = (Resolved (Some (toSession s active False)),
                 r\<lparr>validatePromise := Some (Resolved (Some (toSession s active False)))\<rparr>,
                 v\<lparr>validateSessionCalls := validateSessionCalls v @ [token]\<rparr>))"
  using assms
  by (simp add: validateBearerToken_def callValidateSession_def luciaAuth_def
        validateAndRenew_def toSession_def)

text \<open>
  The theorem at the session manager of the spec: the active session \<open>s1\<close> presented as
  bearer token is returned as it is, the idle session \<open>s9\<close> is replaced by \<open>s2\<close>, an
  unknown token yields none, and so does no token.
\<close>

theorem validateBearerToken_validates_witness:
  "validateBearerToken (luciaAuth 100 100)
     \<lparr>storedSessionId = None, bearerToken = Some ''s1'', validatePromise = None,
      validateBearerTokenPromise = None\<rparr>
     \<lparr>storage =
        \<lparr>sessions = [\<lparr>sessionId = ''s1'', userId = ''u1'', activePeriodExpiresAt = 100,
                      idlePeriodExpiresAt = 200, attributes = []\<rparr>],
         now = 50, generated = 2\<rparr>,
      validateSessionCalls = [], cookies = []\<rparr>
   = (Resolved (Some \<lparr>sessionId = ''s1'', userId = ''u1'', activePeriodExpiresAt = 100,
                      idlePeriodExpiresAt = 200, attributes = [], state = active,
                      fresh = False\<rparr>),
      \<lparr>storedSessionId = None, bearerToken = Some ''s1'',
       validatePromise =
         Some (Resolved (Some \<lparr>sessionId = ''s1'', userId = ''u1'',
                               activePeriodExpiresAt = 100, idlePeriodExpiresAt = 200,
                               attributes = [], state = active, fresh = False\<rparr>)),
       validateBearerTokenPromise = None\<rparr>,
      \<lparr>storage =
         \<lparr>sessions = [\<lparr>sessionId = ''s1'', userId = ''u1'', activePeriodExpiresAt = 100,
                       idlePeriodExpiresAt = 200, attributes = []\<rparr>],
          now = 50, generated = 2\<rparr>,
       validateSessionCalls = [''s1''], cookies = []\<rparr>)
 \<and> map sessionId (sessions (storage (snd (snd (validateBearerToken (luciaAuth 100 100)
     \<lparr>storedSessionId = None, bearerToken = Some ''s9'', validatePromise = None,
      validateBearerTokenPromise = None\<rparr>
     \<lparr>storage =
        \<lparr>sessions = [\<lparr>sessionId = ''s1'', userId = ''u1'', activePeriodExpiresAt = 100,
                      idlePeriodExpiresAt = 200, attributes = []\<rparr>,
                     \<lparr>sessionId = ''s9'', userId = ''u1'', activePeriodExpiresAt = 10,
                      idlePeriodExpiresAt = 90, attributes = []\<rparr>],
         now = 50, generated = 2\<rparr>,
      validateSessionCalls = [], cookies = []\<rparr>))))) = [''s1'', ''s2'']
 \<and> fst (validateBearerToken (luciaAuth 100 100)
     \<lparr>storedSessionId = None, bearerToken = Some ''zz'', validatePromise = None,
      validateBearerTokenPromise = None\<rparr>
     \<lparr>storage =
        \<lparr>sessions = [\<lparr>sessionId = ''s1'', userId = ''u1'', activePeriodExpiresAt = 100,
                      idlePeriodExpiresAt = 200, attributes = []\<rparr>],
         now = 50, generated = 2\<rparr>,
      validateSessionCalls = [], cookies = []\<rparr>) = Resolved None
 \<and> fst (validateBearerToken (luciaAuth 100 100)
     \<lparr>storedSessionId = None, bearerToken = None, validatePromise = None,
      validateBearerTokenPromise = None\<rparr>
     \<lparr>storage =
        \<lparr>sessions = [\<lparr>sessionId = ''s1'', userId = ''u1'', activePeriodExpiresAt = 100,
                      idlePeriodExpiresAt = 200, attributes = []\<rparr>],
         now = 50, generated = 2\<rparr>,
      validateSessionCalls = [], cookies = []\<rparr>) = Resolved None"
  using validateBearerToken_validates
    [where r = "\<lparr>storedSessionId = None, bearerToken = Some ''s1'', validatePromise = None,
          validateBearerTokenPromise = None\<rparr>"
       and auth = "luciaAuth 100 100"
       and w = "\<lparr>storage =
           \<lparr>sessions = [\<lparr>sessionId = ''s1'', userId = ''u1'', activePeriodExpiresAt = 100,
                         idlePeriodExpiresAt = 200, attributes = []\<rparr>],
            now = 50, generated = 2\<rparr>,
          validateSessionCalls = [], cookies = []\<rparr>"
       and v = "\<lparr>storage =
           \<lparr>sessions = [\<lparr>sessionId = ''s1'', userId = ''u1'', activePeriodExpiresAt = 100,
                         idlePeriodExpiresAt = 200, attributes = []\<rparr>],
            now = 50, generated = 2\<rparr>,
          validateSessionCalls = [], cookies = [] :: string option list\<rparr>"
       and activePeriod = 100 and idlePeriod = 100]
    validateBearerToken_validates
    [where r = "\<lparr>storedSessionId = None, bearerToken = Some ''s9'', validatePromise = None,
          validateBearerTokenPromise = None\<rparr>"
       and auth = "luciaAuth 100 100"
       and w = "\<lparr>storage =
           \<lparr>sessions = [\<lparr>sessionId = ''s1'', userId = ''u1'', activePeriodExpiresAt = 100,
                         idlePeriodExpiresAt = 200, attributes = []\<rparr>,
                        \<lparr>sessionId = ''s9'', userId = ''u1'', activePeriodExpiresAt = 10,
                         idlePeriodExpiresAt = 90, attributes = []\<rparr>],
            now = 50, generated = 2\<rparr>,
          validateSessionCalls = [], cookies = []\<rparr>"
       and v = "\<lparr>storage =
           \<lparr>sessions = [\<lparr>sessionId = ''s1'', userId = ''u1'', activePeriodExpiresAt = 100,
                         idlePeriodExpiresAt = 200, attributes = []\<rparr>,
                        \<lparr>sessionId = ''s9'', userId = ''u1'', activePeriodExpiresAt = 10,
                         idlePeriodExpiresAt = 90, attributes = []\<rparr>],
            now = 50, generated = 2\<rparr>,
          validateSessionCalls = [], cookies = [] :: string option list\<rparr>"
       and activePeriod = 100 and idlePeriod = 100]
    validateBearerToken_validates
    [where r = "\<lparr>storedSessionId = None, bearerToken = Some ''zz'', validatePromise = None,
          validateBearerTokenPromise = None\<rparr>"
       and auth = "luciaAuth 100 100"
       and w = "\<lparr>storage =
           \<lparr>sessions = [\<lparr>sessionId = ''s1'', userId = ''u1'', activePeriodExpiresAt = 100,
                         idlePeriodExpiresAt = 200, attributes = []\<rparr>],
            now = 50, generated = 2\<rparr>,
          validateSessionCalls = [], cookies = []\<rparr>"
       and v = "\<lparr>storage =
           \<lparr>sessions = [\<lparr>sessionId = ''s1'', userId = ''u1'', activePeriodExpiresAt = 100,
                         idlePeriodExpiresAt = 200, attributes = []\<rparr>],
            now = 50, generated = 2\<rparr>,
          validateSessionCalls = [], cookies = [] :: string option list\<rparr>"
       and activePeriod = 100 and idlePeriod = 100]
    validateBearerToken_validates
    [where r = "\<lparr>storedSessionId = None, bearerToken = None, validatePromise = None,
          validateBearerTokenPromise = None\<rparr>"
       and auth = "luciaAuth 100 100"
       and w = "\<lparr>storage =
           \<lparr>sessions = [\<lparr>sessionId = ''s1'', userId = ''u1'', activePeriodExpiresAt = 100,
                         idlePeriodExpiresAt = 200, attributes = []\<rparr>],
            now = 50, generated = 2\<rparr>,
          validateSessionCalls = [], cookies = []\<rparr>"
       and v = "\<lparr>storage =
           \<lparr>sessions = [\<lparr>sessionId = ''s1'', userId = ''u1'', activePeriodExpiresAt = 100,
                         idlePeriodExpiresAt = 200, attributes = []\<rparr>],
            now = 50, generated = 2\<rparr>,
          validateSessionCalls = [], cookies = [] :: string option list\<rparr>"
       and activePeriod = 100 and idlePeriod = 100]
  by (simp add: luciaAuth_def validateAndRenew_def expirationState_def toSession_def
        generate_def digit_def decimal.simps)

text \<open>
  C2, the claim as stated fails. The idle session \<open>a1\<close> presented as bearer token is not
  returned as it is: its row is deleted, the replacement row \<open>s2\<close> is inserted, and the
  fresh session \<open>s2\<close> is returned. A \<open>get\<close> of the same token in the same storage
  returns \<open>a1\<close> with state idle and writes nothing.
\<close>

theorem validateBearerToken_renews_idle:
  "validateBearerToken (luciaAuth 100 100)
     \<lparr>storedSessionId = None, bearerToken = Some ''a1'', validatePromise = None,
      validateBearerTokenPromise = None\<rparr>
     \<lparr>storage =
        \<lparr>sessions =
           [\<lparr>sessionId = ''a1'', userId = ''u1'', activePeriodExpiresAt = 100,
             idlePeriodExpiresAt = 200, attributes = [(''country'', VString ''CH'')]\<rparr>],
         now = 150, generated = 2\<rparr>,
      validateSessionCalls = [], cookies = []\<rparr>
   = (Resolved (Some \<lparr>sessionId = ''s2'', userId = ''u1'', activePeriodExpiresAt = 250,
                      idlePeriodExpiresAt = 350,
                      attributes = [(''country'', VString ''CH'')],
                      state = active, fresh = True\<rparr>),
      \<lparr>storedSessionId = None, bearerToken = Some ''a1'',
       validatePromise =
         Some (Resolved (Some \<lparr>sessionId = ''s2'', userId = ''u1'',
                               activePeriodExpiresAt = 250, idlePeriodExpiresAt = 350,
                               attributes = [(''country'', VString ''CH'')],
                               state = active, fresh = True\<rparr>)),
       validateBearerTokenPromise = None\<rparr>,
      \<lparr>storage =
         \<lparr>sessions =
            [\<lparr>sessionId = ''s2'', userId = ''u1'', activePeriodExpiresAt = 250,
              idlePeriodExpiresAt = 350, attributes = [(''country'', VString ''CH'')]\<rparr>],
          now = 150, generated = 3\<rparr>,
       validateSessionCalls = [''a1''], cookies = []\<rparr>)
 \<and> getSession ''a1''
       \<lparr>sessions =
          [\<lparr>sessionId = ''a1'', userId = ''u1'', activePeriodExpiresAt = 100,
            idlePeriodExpiresAt = 200, attributes = [(''country'', VString ''CH'')]\<rparr>],
        now = 150, generated = 2\<rparr>
   = (Inr \<lparr>sessionId = ''a1'', userId = ''u1'', activePeriodExpiresAt = 100,
            idlePeriodExpiresAt = 200, attributes = [(''country'', VString ''CH'')],
            state = idle, fresh = False\<rparr>,
      \<lparr>sessions =
         [\<lparr>sessionId = ''a1'', userId = ''u1'', activePeriodExpiresAt = 100,
           idlePeriodExpiresAt = 200, attributes = [(''country'', VString ''CH'')]\<rparr>],
       now = 150, generated = 2\<rparr>)"
  by (simp add: validateBearerToken_def callValidateSession_def luciaAuth_def
        validateAndRenew_def getSession_def expirationState_def toSession_def
        generate_def digit_def decimal.simps)

text \<open>
  C3, as amended. During cookie validation \<open>validate()\<close> absorbs every \<open>LuciaError\<close>,
  whatever its kind: when \<open>auth.validateSession\<close> throws one, \<open>validate()\<close> returns none,
  forgets the stored session id and hands the clearing cookie to \<open>setCookie\<close>.
\<close>

theorem validate_absorbs_LuciaError:
  assumes "validatePromise r = None"
    and "truthy (storedSessionId r) = Some sid"
    and "validateSession auth sid (storage w) = (Inl e, st)"
    and "isLuciaError e"
  shows "validate auth r w
     = (Resolved None,
        r\<lparr>storedSessionId := None, validatePromise := Some (Resolved None)\<rparr>,
        w\<lparr>storage := st, validateSessionCalls := validateSessionCalls w @ [sid],
          cookies := cookies w @ [createSessionCookie auth None]\<rparr>)"
proof -
  from assms(2) have sid: "storedSessionId r = Some sid"
    by (cases "storedSessionId r") (auto split: if_splits)
  show ?thesis
    using assms by (simp add: validate_def callValidateSession_def setSessionCookie_def sid)
qed

theorem validate_absorbs_LuciaError_witness:
  "validate (failingAuth (LuciaError ''AUTH_INVALID_SESSION_ID''))
     \<lparr>storedSessionId = Some ''s1'', bearerToken = None, validatePromise = None,
      validateBearerTokenPromise = None\<rparr>
     \<lparr>storage = (), validateSessionCalls = [], cookies = []\<rparr>
   = (Resolved None,
      \<lparr>storedSessionId = None, bearerToken = None, validatePromise = Some (Resolved None),
       validateBearerTokenPromise = None\<rparr>,
      \<lparr>storage = (), validateSessionCalls = [''s1''], cookies = [None]\<rparr>)"
  using validate_absorbs_LuciaError
    [of "\<lparr>storedSessionId = Some ''s1'', bearerToken = None, validatePromise = None,
          validateBearerTokenPromise = None\<rparr>"
        "''s1''" "failingAuth (LuciaError ''AUTH_INVALID_SESSION_ID'')"
        "\<lparr>storage = (), validateSessionCalls = [], cookies = []\<rparr>"
        "LuciaError ''AUTH_INVALID_SESSION_ID''" "()"]
  by (simp add: failingAuth_def)

text \<open>
  C3, the claim as stated fails. When the underlying validation fails with
  \<open>InvalidUserId\<close>, \<open>validate()\<close> does not re-raise it: it returns none and clears the
  cookie, as it does for \<open>InvalidSessionId\<close>.
\<close>

theorem validate_absorbs_InvalidUserId:
  "validate (failingAuth (LuciaError ''AUTH_INVALID_USER_ID''))
     \<lparr>storedSessionId = Some ''a1'', bearerToken = None, validatePromise = None,
      validateBearerTokenPromise = None\<rparr>
     \<lparr>storage = (), validateSessionCalls = [], cookies = []\<rparr>
   = (Resolved None,
      \<lparr>storedSessionId = None, bearerToken = None, validatePromise = Some (Resolved None),
       validateBearerTokenPromise = None\<rparr>,
      \<lparr>storage = (), validateSessionCalls = [''a1''], cookies = [None]\<rparr>)
 \<and> fst (validate (failingAuth (LuciaError ''AUTH_INVALID_USER_ID''))
          \<lparr>storedSessionId = Some ''a1'', bearerToken = None, validatePromise = None,
           validateBearerTokenPromise = None\<rparr>
          \<lparr>storage = (), validateSessionCalls = [], cookies = []\<rparr>)
     \<noteq> Rejected (LuciaError ''AUTH_INVALID_USER_ID'')"
  by (simp add: validate_def callValidateSession_def failingAuth_def setSessionCookie_def)

text \<open>
  C4. With CSRF protection enabled and no \<open>Origin\<close> header, origin verification returns
  invalid and the constructor resolves no stored session id, whatever session cookie the
  request carries; \<open>validate()\<close> on the object so built returns none and leaves the world
  as it is (no call of \<open>auth.validateSession\<close>, no cookie), and so does a further
  \<open>validate()\<close> in any later world.
\<close>

theorem missing_origin_is_anonymous:
  assumes "csrf \<noteq> CsrfBool False" and "headers (request ctx) ''Origin'' = None"
  shows "isValidRequestOrigin safeParseUrl isAllowedOrigin (request ctx) config = False
       \<and> storedSessionId (newAuthRequest safeParseUrl isAllowedOrigin auth csrf ctx) = None
       \<and> validate auth (newAuthRequest safeParseUrl isAllowedOrigin auth csrf ctx) w
           = (Resolved None,
              (newAuthRequest safeParseUrl isAllowedOrigin auth csrf ctx)
                \<lparr>validatePromise := Some (Resolved None)\<rparr>, w)
       \<and> validate auth
             ((newAuthRequest safeParseUrl isAllowedOrigin auth csrf ctx)
                \<lparr>validatePromise := Some (Resolved None)\<rparr>) w2
           = (Resolved None,
              (newAuthRequest safeParseUrl isAllowedOrigin auth csrf ctx)
                \<lparr>validatePromise := Some (Resolved None)\<rparr>, w2)"
  using assms by (simp add: isValidRequestOrigin_def newAuthRequest_def validate_def Let_def)

theorem missing_origin_is_anonymous_witness:
  "CsrfBool True \<noteq> CsrfBool False
 \<and> headers \<lparr>httpMethod = ''POST'', url = Val ''https://example.com/'',
             headers = [''Cookie'' \<mapsto> ''s1'', ''Host'' \<mapsto> ''example.com'']\<rparr> ''Origin'' = None
 \<and> storedSessionId
      (newAuthRequest (\<lambda>u. Some (URL ''example.com'')) (\<lambda>origin h subs. True) countingAuth
         (CsrfBool True)
         \<lparr>sessionCookie = Some ''s1'',
          request = \<lparr>httpMethod = ''POST'', url = Val ''https://example.com/'',
                     headers = [''Cookie'' \<mapsto> ''s1'', ''Host'' \<mapsto> ''example.com'']\<rparr>\<rparr>) = None
 \<and> validate countingAuth
      (newAuthRequest (\<lambda>u. Some (URL ''example.com'')) (\<lambda>origin h subs. True) countingAuth
         (CsrfBool True)
         \<lparr>sessionCookie = Some ''s1'',
          request = \<lparr>httpMethod = ''POST'', url = Val ''https://example.com/'',
                     headers = [''Cookie'' \<mapsto> ''s1'', ''Host'' \<mapsto> ''example.com'']\<rparr>\<rparr>)
      \<lparr>storage = 0, validateSessionCalls = [], cookies = []\<rparr>
    = (Resolved None,
       \<lparr>storedSessionId = None, bearerToken = None, validatePromise = Some (Resolved None),
        validateBearerTokenPromise = None\<rparr>,
       \<lparr>storage = 0, validateSessionCalls = [], cookies = []\<rparr>)"
  using missing_origin_is_anonymous
    [of "CsrfBool True"
        "\<lparr>sessionCookie = Some ''s1'',
          request = \<lparr>httpMethod = ''POST'', url = Val ''https://example.com/'',
                     headers = [''Cookie'' \<mapsto> ''s1'', ''Host'' \<mapsto> ''example.com'']\<rparr>\<rparr>"
        "\<lambda>u. Some (URL ''example.com'')" "\<lambda>origin h subs. True" emptyConfiguration
        countingAuth "\<lparr>storage = 0, validateSessionCalls = [], cookies = []\<rparr>"
        "\<lparr>storage = 0, validateSessionCalls = [], cookies = []\<rparr>"]
  by (simp add: newAuthRequest_def countingAuth_def isValidRequestOrigin_def)

text \<open>
  A configured host is the expected host. With \<open>host\<close> set to \<open>null\<close>, which the
  declared type of the configuration does not allow, the expected host is the host of
  the request's URL, and without a URL the value of the named host header.
\<close>

lemma configured_host_is_used:
  "host config = Val h \<Longrightarrow> truthy (headers req ''Origin'') = Some origin \<Longrightarrow>
   isValidRequestOrigin safeParseUrl isAllowedOrigin req config
     = isAllowedOrigin origin h (nullish (allowedSubDomains config) (SubDomains []))"
  by (simp add: isValidRequestOrigin_def)

lemma null_host_falls_back:
  "host config = Null \<Longrightarrow> truthy (headers req ''Origin'') = Some origin \<Longrightarrow>
   isValidRequestOrigin safeParseUrl isAllowedOrigin req config
     = (case url req of
          Val u \<Rightarrow>
            (case safeParseUrl u of
               None \<Rightarrow> False
             | Some parsed \<Rightarrow>
                 isAllowedOrigin origin (url_host parsed)
                   (nullish (allowedSubDomains config) (SubDomains [])))
        | Undefined \<Rightarrow>
            (case headers req (nullish (hostHeader config) ''Host'') of
               None \<Rightarrow> False
             | Some h \<Rightarrow>
                 isAllowedOrigin origin h (nullish (allowedSubDomains config) (SubDomains [])))
        | Null \<Rightarrow>
            (case headers req (nullish (hostHeader config) ''Host'') of
               None \<Rightarrow> False
             | Some h \<Rightarrow>
                 isAllowedOrigin origin h (nullish (allowedSubDomains config) (SubDomains []))))"
  by (cases "url req") (auto simp: isValidRequestOrigin_def split: option.splits)

text \<open>
  C5. The claim: with no host configured, the expected host is the host of the request's
  URL, so a request whose URL host equals the host of its \<open>Origin\<close> header is valid. The
  code at such a request, with the empty configuration \<open>{}\<close>: \<open>config.host\<close> is
  \<open>undefined\<close>, \<open>config.host !== null\<close> holds, the expected host becomes
  \<open>config.host ?? null = null\<close>, and verification returns invalid, whatever
  \<open>safeParseUrl\<close> and \<open>isAllowedOrigin\<close> compute.
\<close>

theorem no_configured_host_is_invalid:
  "isValidRequestOrigin safeParseUrl isAllowedOrigin
     \<lparr>httpMethod = ''POST'', url = Val ''https://example.com/login'',
      headers = [''Origin'' \<mapsto> ''https://example.com'', ''Host'' \<mapsto> ''example.com'']\<rparr>
     emptyConfiguration = False"
  by (simp add: isValidRequestOrigin_def emptyConfiguration_def)

section \<open>Properties of the storage adapters\<close>

text \<open>
  The Prisma adapter's \<open>setUser\<close> with a key leaves the storage as it was when it throws.
\<close>

lemma prisma_setUser_atomic:
  "prisma_setUser prisma uid attrs (Some k) s = (Inl e, s1) \<Longrightarrow> s1 = s"
  by (auto simp: prisma_setUser_def prismaTransaction_def Let_def
           split: prod.splits sum.splits if_splits)

text \<open>
  C7. The claim: \<open>setUser\<close> with a key inserts both rows or neither. The mysql2 adapter
  at a key whose id is already taken: the user row \<open>u1\<close> is inserted through the pool
  and committed, the key insert fails with a duplicate entry, \<open>rollback\<close> on the
  transaction's connection undoes nothing, and \<open>setUser\<close> throws
  \<open>AUTH_DUPLICATE_KEY_ID\<close> with user \<open>u1\<close> left in \<open>auth_user\<close> without a key.
\<close>

theorem mysql2_setUser_leaves_user:
  "mysql2_setUser mysqlPool ''u1'' [(''username'', VString ''bob'')]
     (Some [(''id'', VString ''email:a@x.org''), (''user_id'', VString ''u1''),
            (''hashed_password'', VNull), (''primary_key'', VBool True)])
     \<lparr>auth_user = [[(''id'', VString ''u0''), (''username'', VString ''alice'')]],
      auth_key = [[(''id'', VString ''email:a@x.org''), (''user_id'', VString ''u0''),
                   (''hashed_password'', VNull), (''primary_key'', VBool True)]],
      connections = 0, openTransactions = []\<rparr>
   = (Inl (LuciaError ''AUTH_DUPLICATE_KEY_ID''),
      \<lparr>auth_user = [[(''id'', VString ''u0''), (''username'', VString ''alice'')],
                    [(''id'', VString ''u1''), (''username'', VString ''bob'')]],
       auth_key = [[(''id'', VString ''email:a@x.org''), (''user_id'', VString ''u0''),
                   (''hashed_password'', VNull), (''primary_key'', VBool True)]],
       connections = 1, openTransactions = []\<rparr>)"
  by (simp add: mysql2_setUser_def transaction_def andThen_def mysqlPool_def spread_def
        insertRow_def idsOf_def duplicateEntry_def messageIncludes_def)

text \<open>
  C8. \<open>setSession\<close> of the mysql2 adapter and of the Prisma adapter: a foreign-key
  violation on \<open>user_id\<close> (errno 1452 with \<open>(`user_id`)\<close> in the message; Prisma code
  \<open>P2003\<close>) is thrown as \<open>AUTH_INVALID_USER_ID\<close>, a duplicate primary key
  (\<open>ER_DUP_ENTRY\<close> with \<open>PRIMARY\<close> in the message; Prisma code \<open>P2002\<close> with
  \<open>`id`\<close> in the message) as \<open>AUTH_DUPLICATE_SESSION_ID\<close>, and every other thrown value
  is thrown again as it is; the storage is left as the underlying call left it.
\<close>

theorem setSession_translates:
  "(coreSetSession session s = (Inr u, s1) \<longrightarrow>
      mysql2_setSession coreSetSession session s = (Inr u, s1))
 \<and> (coreSetSession session s = (Inl e, s1)
      \<and> errno e = Some 1452 \<and> messageIncludes e ''(`user_id`)'' \<longrightarrow>
      mysql2_setSession coreSetSession session s
        = (Inl (LuciaError ''AUTH_INVALID_USER_ID''), s1))
 \<and> (coreSetSession session s = (Inl e, s1)
      \<and> \<not> (errno e = Some 1452 \<and> messageIncludes e ''(`user_id`)'')
      \<and> code e = Some ''ER_DUP_ENTRY'' \<and> messageIncludes e ''PRIMARY'' \<longrightarrow>
      mysql2_setSession coreSetSession session s
        = (Inl (LuciaError ''AUTH_DUPLICATE_SESSION_ID''), s1))
 \<and> (coreSetSession session s = (Inl e, s1)
      \<and> \<not> (errno e = Some 1452 \<and> messageIncludes e ''(`user_id`)'')
      \<and> \<not> (code e = Some ''ER_DUP_ENTRY'' \<and> messageIncludes e ''PRIMARY'') \<longrightarrow>
      mysql2_setSession coreSetSession session s = (Inl e, s1))
 \<and> (authSessionCreate prisma session t = (Inr row, t1) \<longrightarrow>
      prisma_setSession prisma session t = (Inr (), t1))
 \<and> (authSessionCreate prisma session t = (Inl e2, t1) \<and> code e2 = Some ''P2003'' \<longrightarrow>
      prisma_setSession prisma session t = (Inl (LuciaError ''AUTH_INVALID_USER_ID''), t1))
 \<and> (authSessionCreate prisma session t = (Inl e2, t1) \<and> code e2 \<noteq> Some ''P2003''
      \<and> code e2 = Some ''P2002'' \<and> messageIncludes e2 ''`id`'' \<longrightarrow>
      prisma_setSession prisma session t
        = (Inl (LuciaError ''AUTH_DUPLICATE_SESSION_ID''), t1))
 \<and> (authSessionCreate prisma session t = (Inl e2, t1) \<and> code e2 \<noteq> Some ''P2003''
      \<and> \<not> (code e2 = Some ''P2002'' \<and> messageIncludes e2 ''`id`'') \<longrightarrow>
      prisma_setSession prisma session t = (Inl e2, t1))"
  by (simp add: mysql2_setSession_def prisma_setSession_def)

text \<open>
  The theorem at three failures of the underlying call, for each adapter: a missing
  user, a taken session id, and a lost connection, which is thrown again unchanged.
\<close>

theorem setSession_translates_witness:
  "mysql2_setSession (\<lambda>session s. (Inl noReferencedRow, s)) [(''id'', VString ''s1'')] (0::nat)
     = (Inl (LuciaError ''AUTH_INVALID_USER_ID''), 0)
 \<and> mysql2_setSession (\<lambda>session s. (Inl duplicateEntry, s)) [(''id'', VString ''s1'')] (0::nat)
     = (Inl (LuciaError ''AUTH_DUPLICATE_SESSION_ID''), 0)
 \<and> mysql2_setSession
       (\<lambda>session s. (Inl (QueryError None (Some ''ECONNRESET'') (Some ''read ECONNRESET'')), s))
       [(''id'', VString ''s1'')] (0::nat)
     = (Inl (QueryError None (Some ''ECONNRESET'') (Some ''read ECONNRESET'')), 0)
 \<and> prisma_setSession
       \<lparr>authUserCreate = (\<lambda>row t. (Inr row, t)), authKeyCreate = (\<lambda>row t. (Inr row, t)),
        authSessionCreate =
          (\<lambda>row t. (Inl (QueryError None (Some ''P2003'')
                           (Some ''Foreign key constraint failed on the field: `user_id`'')), t))\<rparr>
       [(''id'', VString ''s1'')] (0::nat)
     = (Inl (LuciaError ''AUTH_INVALID_USER_ID''), 0)
 \<and> prisma_setSession
       \<lparr>authUserCreate = (\<lambda>row t. (Inr row, t)), authKeyCreate = (\<lambda>row t. (Inr row, t)),
        authSessionCreate =
          (\<lambda>row t. (Inl (QueryError None (Some ''P2002'')
                           (Some ''Unique constraint failed on the fields: (`id`)'')), t))\<rparr>
       [(''id'', VString ''s1'')] (0::nat)
     = (Inl (LuciaError ''AUTH_DUPLICATE_SESSION_ID''), 0)
 \<and> prisma_setSession
       \<lparr>authUserCreate = (\<lambda>row t. (Inr row, t)), authKeyCreate = (\<lambda>row t. (Inr row, t)),
        authSessionCreate =
          (\<lambda>row t. (Inl (QueryError None (Some ''P1001'')
                           (Some ''Cannot reach database server'')), t))\<rparr>
       [(''id'', VString ''s1'')] (0::nat)
     = (Inl (QueryError None (Some ''P1001'') (Some ''Cannot reach database server'')), 0)"
  using setSession_translates
    [where coreSetSession = "\<lambda>session s. (Inl noReferencedRow, s)"
       and session = "[(''id'', VString ''s1'')]" and s = "0::nat" and u = "()" and ?s1.0 = "0::nat"
       and e = noReferencedRow
       and prisma =
         "\<lparr>authUserCreate = (\<lambda>row t. (Inr row, t)), authKeyCreate = (\<lambda>row t. (Inr row, t)),
           authSessionCreate =
             (\<lambda>row t. (Inl (QueryError None (Some ''P2003'')
                (Some ''Foreign key constraint failed on the field: `user_id`'')), t))\<rparr>"
       and t = "0::nat" and row = "[]" and ?t1.0 = "0::nat"
       and ?e2.0 = "QueryError None (Some ''P2003'')
                (Some ''Foreign key constraint failed on the field: `user_id`'')"]
    setSession_translates
    [where coreSetSession = "\<lambda>session s. (Inl duplicateEntry, s)"
       and session = "[(''id'', VString ''s1'')]" and s = "0::nat" and u = "()" and ?s1.0 = "0::nat"
       and e = duplicateEntry
       and prisma =
         "\<lparr>authUserCreate = (\<lambda>row t. (Inr row, t)), authKeyCreate = (\<lambda>row t. (Inr row, t)),
           authSessionCreate =
             (\<lambda>row t. (Inl (QueryError None (Some ''P2002'')
                (Some ''Unique constraint failed on the fields: (`id`)'')), t))\<rparr>"
       and t = "0::nat" and row = "[]" and ?t1.0 = "0::nat"
       and ?e2.0 = "QueryError None (Some ''P2002'')
                (Some ''Unique constraint failed on the fields: (`id`)'')"]
    setSession_translates
    [where coreSetSession =
         "\<lambda>session s. (Inl (QueryError None (Some ''ECONNRESET'') (Some ''read ECONNRESET'')), s)"
       and session = "[(''id'', VString ''s1'')]" and s = "0::nat" and u = "()" and ?s1.0 = "0::nat"
       and e = "QueryError None (Some ''ECONNRESET'') (Some ''read ECONNRESET'')"
       and prisma =
         "\<lparr>authUserCreate = (\<lambda>row t. (Inr row, t)), authKeyCreate = (\<lambda>row t. (Inr row, t)),
           authSessionCreate =
             (\<lambda>row t. (Inl (QueryError None (Some ''P1001'')
                (Some ''Cannot reach database server'')), t))\<rparr>"
       and t = "0::nat" and row = "[]" and ?t1.0 = "0::nat"
       and ?e2.0 = "QueryError None (Some ''P1001'') (Some ''Cannot reach database server'')"]
  by (simp add: noReferencedRow_def duplicateEntry_def messageIncludes_def)

text \<open>
  C9. \<open>deleteNonPrimaryKey\<close> keeps every key row whose \<open>primary_key\<close> is true, whatever
  key id it is called with; a row it removes has \<open>primary_key\<close> false and the id asked
  for; called on the id of a primary key it leaves the whole storage unchanged; and it
  never touches the user and session tables.
\<close>

theorem deleteNonPrimaryKey_keeps_primary:
  "(\<forall>row \<in> set (authKey db). map_of row ''primary_key'' = Some (VBool True) \<longrightarrow>
       row \<in> set (authKey (deleteNonPrimaryKey keyId db)))
 \<and> (\<forall>row \<in> set (authKey db). row \<notin> set (authKey (deleteNonPrimaryKey keyId db)) \<longrightarrow>
       map_of row ''primary_key'' = Some (VBool False) \<and> map_of row ''id'' = Some (VString keyId))
 \<and> ((\<forall>row \<in> set (authKey db). map_of row ''id'' = Some (VString keyId) \<longrightarrow>
         map_of row ''primary_key'' = Some (VBool True)) \<longrightarrow>
       deleteNonPrimaryKey keyId db = db)
 \<and> authUser (deleteNonPrimaryKey keyId db) = authUser db
 \<and> authSession (deleteNonPrimaryKey keyId db) = authSession db"
proof -
  have keep: "\<And>rows. (\<forall>row \<in> set rows. map_of row ''id'' = Some (VString keyId) \<longrightarrow>
         map_of row ''primary_key'' = Some (VBool True)) \<Longrightarrow>
       deleteMany [(''id'', VString keyId), (''primary_key'', VBool False)] rows = rows"
    by (auto simp: deleteMany_def matchesWhere_def filter_id_conv)
  show ?thesis
    using keep [of "authKey db"]
    by (auto simp: deleteNonPrimaryKey_def deleteMany_def matchesWhere_def)
qed

theorem deleteNonPrimaryKey_keeps_primary_witness:
  "deleteNonPrimaryKey ''email:a@x.org''
     \<lparr>authUser = [[(''id'', VString ''u0'')]],
      authKey = [[(''id'', VString ''email:a@x.org''), (''user_id'', VString ''u0''),
                  (''primary_key'', VBool True)],
                 [(''id'', VString ''github:7''), (''user_id'', VString ''u0''),
                  (''primary_key'', VBool False)]],
      authSession = []\<rparr>
   = \<lparr>authUser = [[(''id'', VString ''u0'')]],
      authKey = [[(''id'', VString ''email:a@x.org''), (''user_id'', VString ''u0''),
                  (''primary_key'', VBool True)],
                 [(''id'', VString ''github:7''), (''user_id'', VString ''u0''),
                  (''primary_key'', VBool False)]],
      authSession = []\<rparr>
 \<and> authKey (deleteNonPrimaryKey ''github:7''
     \<lparr>authUser = [[(''id'', VString ''u0'')]],
      authKey = [[(''id'', VString ''email:a@x.org''), (''user_id'', VString ''u0''),
                  (''primary_key'', VBool True)],
                 [(''id'', VString ''github:7''), (''user_id'', VString ''u0''),
                  (''primary_key'', VBool False)]],
      authSession = []\<rparr>)
   = [[(''id'', VString ''email:a@x.org''), (''user_id'', VString ''u0''),
       (''primary_key'', VBool True)]]"
  using deleteNonPrimaryKey_keeps_primary
    [of "\<lparr>authUser = [[(''id'', VString ''u0'')]],
          authKey = [[(''id'', VString ''email:a@x.org''), (''user_id'', VString ''u0''),
                      (''primary_key'', VBool True)],
                     [(''id'', VString ''github:7''), (''user_id'', VString ''u0''),
                      (''primary_key'', VBool False)]],
          authSession = []\<rparr>" "''email:a@x.org''"]
  by (simp add: deleteNonPrimaryKey_def deleteMany_def matchesWhere_def)

end
